theory Spec2Isabelle
  imports Main "HOL-Library.Char_ord" "HOL-Library.List_Lexorder" "HOL-Library.Multiset"
begin

section \<open>Python values used by the scripts\<close>

text \<open>
  The scripts of the repository are straight-line Python programs over the filesystem.
  Python \<^verbatim>\<open>str\<close> is modelled by \<^typ>\<open>string\<close> (a list of bytes, UTF-8 for the few
  non-ASCII characters of the templates), Python \<^verbatim>\<open>int\<close> by \<^typ>\<open>int\<close>, a list by a
  HOL list, a dict literal with fixed keys by a record.
\<close>

subsection \<open>Strings\<close>

definition digit_char :: "nat \<Rightarrow> char" where
  "digit_char d = char_of (48 + d)"

text \<open>\<^verbatim>\<open>str(n)\<close> for a non-negative integer: its decimal digits.\<close>

function str_nat :: "nat \<Rightarrow> string" where
  "str_nat n = (if n < 10 then [digit_char n] else str_nat (n div 10) @ [digit_char (n mod 10)])"
  by pat_completeness auto
termination
  by (relation "measure (\<lambda>n. n)") auto

declare str_nat.simps [simp del]

text \<open>\<^verbatim>\<open>str(i)\<close>, also what an f-string writes for an integer field.\<close>

definition str_int :: "int \<Rightarrow> string" where
  "str_int i = (if i < 0 then ''-'' @ str_nat (nat (- i)) else str_nat (nat i))"

text \<open>\<^verbatim>\<open>sep.join(xs)\<close>.\<close>

fun join :: "string \<Rightarrow> string list \<Rightarrow> string" where
  "join sep [] = []"
| "join sep [x] = x"
| "join sep (x # y # ys) = x @ sep @ join sep (y # ys)"

text \<open>\<^verbatim>\<open>s.endswith(suf)\<close>.\<close>

definition endswith :: "string \<Rightarrow> string \<Rightarrow> bool" where
  "endswith s suf \<longleftrightarrow> length suf \<le> length s \<and> drop (length s - length suf) s = suf"

text \<open>\<^verbatim>\<open>s.split('/')\<close>: the pieces between slashes, empty pieces kept.\<close>

fun split_sep :: "string \<Rightarrow> string list" where
  "split_sep [] = [[]]"
| "split_sep (c # cs) =
     (if c = CHR ''/'' then [] # split_sep cs
      else (case split_sep cs of [] \<Rightarrow> [[c]] | x # xs \<Rightarrow> (c # x) # xs))"

subsection \<open>JSON documents\<close>

text \<open>
  What \<^verbatim>\<open>json.dump\<close> receives: a dict is an object whose keys keep the order of the
  dict literal. The layout of the serialised text is the library's and is not modelled.
\<close>

datatype json =
    JString string
  | JInt int
  | JArray "json list"
  | JObject "(string \<times> json) list"

fun keys :: "json \<Rightarrow> string list" where
  "keys (JObject kvs) = map fst kvs"
| "keys _ = []"

fun field :: "json \<Rightarrow> string \<Rightarrow> json option" where
  "field (JObject kvs) k = map_of kvs k"
| "field _ k = None"

subsection \<open>Paths (pathlib, POSIX flavour)\<close>

text \<open>
  A \<^verbatim>\<open>Path\<close> object is the list of its \<^verbatim>\<open>parts\<close>; an absolute path starts with the
  root part \<^verbatim>\<open>/\<close> (or \<^verbatim>\<open>//\<close> for exactly two leading slashes). Paths are compared as
  Python compares them, part by part, each part as a string by character code: this is
  the order of \<^typ>\<open>string list\<close>.
\<close>

type_synonym path = "string list"

definition is_root :: "string \<Rightarrow> bool" where
  "is_root r \<longleftrightarrow> r = ''/'' \<or> r = ''//''"

definition splitroot :: "string \<Rightarrow> string" where
  "splitroot s =
     (if take 1 s \<noteq> ''/'' then ''''
      else if take 1 (drop 1 s) \<noteq> ''/'' \<or> take 1 (drop 2 s) = ''/'' then ''/''
      else ''//'')"

text \<open>\<^verbatim>\<open>Path(s)\<close>: empty and single-dot pieces are dropped, the root is kept.\<close>

definition Path :: "string \<Rightarrow> path" where
  "Path s =
     (let root = splitroot s;
          parsed = filter (\<lambda>x. x \<noteq> '''' \<and> x \<noteq> ''.'') (split_sep s)
      in if root = '''' then parsed else root # parsed)"

definition is_absolute :: "path \<Rightarrow> bool" where
  "is_absolute p \<longleftrightarrow> (case p of [] \<Rightarrow> False | r # _ \<Rightarrow> is_root r)"

text \<open>\<^verbatim>\<open>p / s\<close>: an absolute right operand replaces the left one.\<close>

definition path_div :: "path \<Rightarrow> string \<Rightarrow> path" where
  "path_div p s = (let q = Path s in if is_absolute q then q else p @ q)"

text \<open>\<^verbatim>\<open>p.name\<close>: the last part, empty for the root and for the empty path.\<close>

definition name_of :: "path \<Rightarrow> string" where
  "name_of p = (if p = [] \<or> (length p = 1 \<and> is_root (hd p)) then '''' else last p)"

text \<open>\<^verbatim>\<open>p.parent\<close>: the path without its last part; the root and the empty path are their own parent.\<close>

definition parent :: "path \<Rightarrow> path" where
  "parent p = (if p = [] \<or> (length p = 1 \<and> is_root (hd p)) then p else butlast p)"

text \<open>\<^verbatim>\<open>str(p)\<close>.\<close>

definition str_path :: "path \<Rightarrow> string" where
  "str_path p =
     (case p of
        [] \<Rightarrow> ''.''
      | r # rest \<Rightarrow> if is_root r then r @ join ''/'' rest else join ''/'' p)"

section \<open>The environment of a run\<close>

text \<open>
  Everything a script reads from outside: the home directory, the directory tree, the
  clock and the two external commands. \<open>listdir env p\<close> is \<open>Some\<close> of the entry names of
  directory \<open>p\<close> in the order the operating system enumerates them, and \<open>None\<close> when
  \<open>p\<close> is not a directory. The \<open>n\<close>-th reading of the clock is \<open>strftime_now env n\<close> in
  the format \<^verbatim>\<open>%Y-%m-%d %H:%M:%S\<close> and \<open>isoformat_now env n\<close> in ISO format.

  Output operations (creating a directory, writing a file, printing) are recorded in the
  order the script performs them. A scan reads the tree of the \<open>env\<close> it is given.
  \<^verbatim>\<open>build_nocodebackend_knowledge.py\<close> scans before it writes anything. The constructor
  of \<^verbatim>\<open>KnowledgeBaseBuilder\<close> creates directories before \<^verbatim>\<open>build\<close> scans, so it returns
  the tree it leaves (\<open>mkdir_parents\<close> below) and \<^verbatim>\<open>build\<close> scans that tree. What
  \<^verbatim>\<open>build\<close> writes after its scan has fixed names, none ending in \<^verbatim>\<open>.png\<close>, so it
  does not change what a later \<^verbatim>\<open>glob("*.png")\<close> returns; these later outputs, and
  those of the first script, are taken to succeed.
\<close>

datatype proc =
    ProcRaises string
  | ProcExit int string

record env =
  HOME :: path
  listdir :: "path \<Rightarrow> string list option"
  is_file :: "path \<Rightarrow> bool"
  strftime_now :: "nat \<Rightarrow> string"
  isoformat_now :: "nat \<Rightarrow> string"
  which_memvid :: proc
  memvid_create :: proc

datatype content = Text string | Json json

datatype event =
    Print string
  | Mkdir path bool
  | Write path content
  | Run "string list"

record world =
  tick :: nat
  trace :: "event list"

definition world0 :: world where
  "world0 = \<lparr>tick = 0, trace = []\<rparr>"

datatype exn =
    FileNotFoundError path
  | NotADirectoryError path
  | FileExistsError path
  | SystemExit int

definition emit :: "event \<Rightarrow> world \<Rightarrow> world" where
  "emit e w = w\<lparr>trace := trace w @ [e]\<rparr>"

definition exists :: "env \<Rightarrow> path \<Rightarrow> bool" where
  "exists env p \<longleftrightarrow> listdir env p \<noteq> None \<or> is_file env p"

definition is_dir :: "env \<Rightarrow> path \<Rightarrow> bool" where
  "is_dir env p \<longleftrightarrow> listdir env p \<noteq> None"

text \<open>\<^verbatim>\<open>p.iterdir()\<close>, consumed by a loop: the children of \<open>p\<close>, or the error raised.\<close>

definition iterdir :: "env \<Rightarrow> path \<Rightarrow> exn + path list" where
  "iterdir env p =
     (case listdir env p of
        Some ns \<Rightarrow> Inr (map (\<lambda>n. p @ [n]) ns)
      | None \<Rightarrow> if is_file env p then Inl (NotADirectoryError p) else Inl (FileNotFoundError p))"

text \<open>
  \<^verbatim>\<open>list(p.glob("*.png"))\<close>: the entries of \<open>p\<close> whose name ends in \<^verbatim>\<open>.png\<close>, in
  enumeration order; nothing when \<open>p\<close> is not a directory.
\<close>

definition glob_png :: "env \<Rightarrow> path \<Rightarrow> path list" where
  "glob_png env p =
     (case listdir env p of
        Some ns \<Rightarrow> map (\<lambda>n. p @ [n]) (filter (\<lambda>n. endswith n ''.png'') ns)
      | None \<Rightarrow> [])"




section \<open>Logging (both knowledge-base scripts)\<close>

definition colors :: "(string \<times> string) list" where
  "colors =
     [(''INFO'', CHR 0x1B # ''[0;34m''),
      (''SUCCESS'', CHR 0x1B # ''[0;32m''),
      (''WARNING'', CHR 0x1B # ''[1;33m''),
      (''ERROR'', CHR 0x1B # ''[0;31m'')]"

definition reset :: string where
  "reset = CHR 0x1B # ''[0m''"

definition log_line :: "string \<Rightarrow> string \<Rightarrow> string \<Rightarrow> string" where
  "log_line timestamp level message =
     (let color = (case map_of colors level of Some c \<Rightarrow> c | None \<Rightarrow> '''')
      in color @ ''['' @ timestamp @ ''] ['' @ level @ '']'' @ reset @ '' '' @ message)"

definition log :: "env \<Rightarrow> string \<Rightarrow> string \<Rightarrow> world \<Rightarrow> world" where
  "log env message level w =
     (let timestamp = strftime_now env (tick w)
      in emit (Print (log_line timestamp level message)) (w\<lparr>tick := Suc (tick w)\<rparr>))"

section \<open>build_nocodebackend_knowledge.py\<close>

definition NOCODEBACKEND_DIR :: "env \<Rightarrow> path" where
  "NOCODEBACKEND_DIR env =
     path_div (path_div (path_div (HOME env) ''xtractedyt'') ''frames'') ''NoCodeBackend''"

definition KNOWLEDGE_BASE_NAME :: string where
  "KNOWLEDGE_BASE_NAME = ''nocodebackend-tutorials''"

definition KNOWLEDGE_BASE_DIR :: "env \<Rightarrow> path" where
  "KNOWLEDGE_BASE_DIR env = path_div (NOCODEBACKEND_DIR env) ''knowledge_base''"

subsection \<open>The scanner\<close>

record frame_dir =
  fd_path :: path
  fd_name :: string
  fd_frame_count :: int
  fd_frames :: "path list"

text \<open>The body of the loop over \<^verbatim>\<open>NOCODEBACKEND_DIR.iterdir()\<close>.\<close>

fun scan_items :: "env \<Rightarrow> path list \<Rightarrow> frame_dir list \<Rightarrow> frame_dir list" where
  "scan_items env [] frame_dirs = frame_dirs"
| "scan_items env (item # items) frame_dirs =
     scan_items env items
       (if is_dir env item then
          (let png_files = glob_png env item
           in if png_files \<noteq> [] then
                frame_dirs @
                  [\<lparr>fd_path = item,
                    fd_name = name_of item,
                    fd_frame_count = int (length png_files),
                    fd_frames = sort png_files\<rparr>]
              else frame_dirs)
        else frame_dirs)"

definition find_all_frame_directories :: "env \<Rightarrow> world \<Rightarrow> (exn + frame_dir list) \<times> world" where
  "find_all_frame_directories env w =
     (if \<not> exists env (NOCODEBACKEND_DIR env) then
        (Inr [],
         log env (''NoCodeBackend directory not found: '' @ str_path (NOCODEBACKEND_DIR env))
           ''ERROR'' w)
      else
        (case iterdir env (NOCODEBACKEND_DIR env) of
           Inl e \<Rightarrow> (Inl e, w)
         | Inr items \<Rightarrow> (Inr (scan_items env items []), w)))"

subsection \<open>The index builder\<close>

record video_info =
  name :: string
  frame_count :: int
  directory :: string
  frames :: "string list"

record knowledge_index =
  created_at :: string
  total_videos :: int
  total_frames :: int
  videos :: "video_info list"

text \<open>The loop that appends one \<^verbatim>\<open>video_info\<close> per scanned directory.\<close>

fun add_videos :: "frame_dir list \<Rightarrow> video_info list \<Rightarrow> video_info list" where
  "add_videos [] vs = vs"
| "add_videos (video_data # rest) vs =
     add_videos rest
       (vs @
         [\<lparr>name = fd_name video_data,
           frame_count = fd_frame_count video_data,
           directory = str_path (fd_path video_data),
           frames = map str_path (fd_frames video_data)\<rparr>])"

definition create_knowledge_index :: "env \<Rightarrow> frame_dir list \<Rightarrow> world \<Rightarrow> knowledge_index \<times> world" where
  "create_knowledge_index env frame_dirs w =
     (\<lparr>created_at = isoformat_now env (tick w),
       total_videos = int (length frame_dirs),
       total_frames = sum_list (map fd_frame_count frame_dirs),
       videos = add_videos frame_dirs []\<rparr>,
      w\<lparr>tick := Suc (tick w)\<rparr>)"

text \<open>Statements that only change the world, run one after the other.\<close>

definition seq :: "(world \<Rightarrow> world) list \<Rightarrow> world \<Rightarrow> world" where
  "seq steps w = fold (\<lambda>step. step) steps w"

subsection \<open>The learning guide\<close>

fun json_of_video_info :: "video_info \<Rightarrow> json" where
  "json_of_video_info v =
     JObject
       [(''name'', JString (name v)),
        (''frame_count'', JInt (frame_count v)),
        (''directory'', JString (directory v)),
        (''frames'', JArray (map JString (frames v)))]"

definition json_of_knowledge_index :: "knowledge_index \<Rightarrow> json" where
  "json_of_knowledge_index index_data =
     JObject
       [(''created_at'', JString (created_at index_data)),
        (''total_videos'', JInt (total_videos index_data)),
        (''total_frames'', JInt (total_frames index_data)),
        (''videos'', JArray (map json_of_video_info (videos index_data)))]"

definition guide_intro :: "string \<Rightarrow> knowledge_index \<Rightarrow> string" where
  \<open>guide_intro generated index_data =
     concat
      [''# NoCodeBackend Tutorial Learning Guide\<newline>'',
       ''\<newline>'',
       ''**Generated:** '' @ generated @ ''\<newline>'',
       ''**Total Videos:** '' @ str_int (total_videos index_data) @ ''\<newline>'',
       ''**Total Frames:** '' @ str_int (total_frames index_data) @ ''\<newline>'',
       ''\<newline>'',
       ''---\<newline>'',
       ''\<newline>'',
       ''## '' @ [CHR 0xF0, CHR 0x9F, CHR 0x93, CHR 0x9A] @ '' Tutorial Collection Overview\<newline>'',
       ''\<newline>'',
       ''This knowledge base contains extracted frames and learning materials from a comprehensive NoCodeBackend tutorial series.\<newline>'',
       ''\<newline>'',
       ''### Contents\<newline>'',
       ''\<newline>'']\<close>

definition guide_analysis_heading :: "string" where
  \<open>guide_analysis_heading =
     concat
      [''\<newline>'',
       ''---\<newline>'',
       ''\<newline>'',
       ''## '' @ [CHR 0xF0, CHR 0x9F, CHR 0x8E, CHR 0xAF] @ '' Frame Analysis\<newline>'',
       ''\<newline>'',
       ''### Frame Distribution\<newline>'',
       ''\<newline>'']\<close>

definition guide_closing :: "string" where
  \<open>guide_closing =
     concat
      [''\<newline>'',
       ''---\<newline>'',
       ''\<newline>'',
       ''## '' @ [CHR 0xF0, CHR 0x9F, CHR 0x94, CHR 0x8D] @ '' How to Use This Knowledge Base\<newline>'',
       ''\<newline>'',
       ''### Manual Frame Analysis\<newline>'',
       ''\<newline>'',
       ''To analyze individual frames with Claude:\<newline>'',
       ''\<newline>'',
       ''1. Navigate to a frame directory\<newline>'',
       ''2. Open frames in sequence\<newline>'',
       ''3. Document key concepts, code snippets, and UI elements\<newline>'',
       ''4. Build your understanding progressively\<newline>'',
       ''\<newline>'',
       ''### Memvid Search (If Available)\<newline>'',
       ''\<newline>'',
       ''If memvid is installed and configured:\<newline>'',
       ''\<newline>'',
       ''```bash\<newline>'',
       ''# Search for specific topics\<newline>'',
       ''memvid search "authentication setup" nocodebackend-tutorials\<newline>'',
       ''\<newline>'',
       ''# Search for UI components\<newline>'',
       ''memvid search "database schema" nocodebackend-tutorials\<newline>'',
       ''\<newline>'',
       ''# Search for code patterns\<newline>'',
       ''memvid search "API endpoints" nocodebackend-tutorials\<newline>'',
       ''```\<newline>'',
       ''\<newline>'',
       ''### Building Projects\<newline>'',
       ''\<newline>'',
       ''Use the extracted frames as reference to:\<newline>'',
       ''\<newline>'',
       ''1. **Understand Architecture** - See how NoCodeBackend projects are structured\<newline>'',
       ''2. **Learn Patterns** - Identify common design patterns and best practices\<newline>'',
       ''3. **Copy Configurations** - Reference setup and configuration steps\<newline>'',
       ''4. **Debug Issues** - Compare your implementation with tutorial examples\<newline>'',
       ''\<newline>'',
       ''---\<newline>'',
       ''\<newline>'',
       ''## '' @ [CHR 0xF0, CHR 0x9F, CHR 0x93, CHR 0x8A] @ '' Learning Recommendations\<newline>'',
       ''\<newline>'',
       ''### For Beginners\<newline>'',
       ''\<newline>'',
       ''1. Start with the first video in the series\<newline>'',
       ''2. Go through frames sequentially\<newline>'',
       ''3. Take notes on key concepts\<newline>'',
       ''4. Try to implement concepts in a test project\<newline>'',
       ''\<newline>'',
       ''### For Intermediate Learners\<newline>'',
       ''\<newline>'',
       ''1. Focus on specific topics of interest\<newline>'',
       ''2. Compare different implementation approaches\<newline>'',
       ''3. Extract reusable code patterns\<newline>'',
       ''4. Build reference implementations\<newline>'',
       ''\<newline>'',
       ''### For Advanced Users\<newline>'',
       ''\<newline>'',
       ''1. Study architecture decisions\<newline>'',
       ''2. Analyze optimization techniques\<newline>'',
       ''3. Document best practices\<newline>'',
       ''4. Create templates and starter kits\<newline>'',
       ''\<newline>'',
       ''---\<newline>'',
       ''\<newline>'',
       ''## '' @ [CHR 0xF0, CHR 0x9F, CHR 0x9B, CHR 0xA0, CHR 0xEF, CHR 0xB8, CHR 0x8F] @ '' Tools & Resources\<newline>'',
       ''\<newline>'',
       ''- **Frame Extraction:** FFmpeg\<newline>'',
       ''- **Video Source:** YouTube (NoCodeBackend tutorials)\<newline>'',
       ''- **Analysis Tools:** Claude Code, Python scripts\<newline>'',
       ''- **Knowledge Base:** Memvid (optional)\<newline>'',
       ''\<newline>'',
       ''---\<newline>'',
       ''\<newline>'',
       ''## '' @ [CHR 0xF0, CHR 0x9F, CHR 0x93, CHR 0x9D] @ '' Notes\<newline>'',
       ''\<newline>'',
       ''This is a living document. As you analyze frames and learn from the tutorials, consider:\<newline>'',
       ''\<newline>'',
       ''1. Adding your own notes and insights\<newline>'',
       ''2. Creating code snippets from visible examples\<newline>'',
       ''3. Building a personal reference library\<newline>'',
       ''4. Sharing learnings with others\<newline>'',
       ''\<newline>'',
       ''---\<newline>'',
       ''\<newline>'',
       ''**Next Steps:**\<newline>'',
       ''\<newline>'',
       ''1. Review frame inventory\<newline>'',
       ''2. Start with first tutorial series\<newline>'',
       ''3. Document key learnings\<newline>'',
       ''4. Build reference projects\<newline>'']\<close>

text \<open>The numbered table of contents: \<^verbatim>\<open>enumerate(index_data['videos'], 1)\<close>.\<close>

definition contents_line :: "nat \<Rightarrow> video_info \<Rightarrow> string" where
  "contents_line idx video =
     str_int (int idx) @ ''. **'' @ name video @ ''** - '' @ str_int (frame_count video) @
     '' frames\<newline>''"

fun add_contents :: "nat \<Rightarrow> video_info list \<Rightarrow> string \<Rightarrow> string" where
  "add_contents idx [] content = content"
| "add_contents idx (video # rest) content =
     add_contents (Suc idx) rest (content @ contents_line idx video)"

text \<open>The lines of one video in the frame distribution.\<close>

definition sample_frame_line :: "string \<Rightarrow> string" where
  "sample_frame_line frame = ''- `'' @ name_of (Path frame) @ ''`\<newline>''"

definition more_frames_line :: "int \<Rightarrow> string" where
  "more_frames_line n = ''- ... and '' @ str_int n @ '' more frames\<newline>''"

definition video_heading :: "video_info \<Rightarrow> string" where
  "video_heading video =
     ''#### '' @ name video @ ''\<newline>\<newline>'' @
     ''- **Frames:** '' @ str_int (frame_count video) @ ''\<newline>'' @
     ''- **Directory:** `'' @ directory video @ ''`\<newline>\<newline>''"

fun add_sample_frames :: "string list \<Rightarrow> string \<Rightarrow> string" where
  "add_sample_frames [] content = content"
| "add_sample_frames (frame # rest) content =
     add_sample_frames rest (content @ sample_frame_line frame)"

definition add_video_section :: "video_info \<Rightarrow> string \<Rightarrow> string" where
  "add_video_section video content =
     (let content1 = content @ video_heading video;
          sample_frames = take 5 (frames video);
          content2 = content1 @ ''Sample frames:\<newline>'';
          content3 = add_sample_frames sample_frames content2;
          content4 =
            (if frame_count video > 5
             then content3 @ more_frames_line (frame_count video - 5)
             else content3)
      in content4 @ ''\<newline>'')"

fun add_video_sections :: "video_info list \<Rightarrow> string \<Rightarrow> string" where
  "add_video_sections [] content = content"
| "add_video_sections (video # rest) content =
     add_video_sections rest (add_video_section video content)"

definition guide_content :: "string \<Rightarrow> knowledge_index \<Rightarrow> string" where
  "guide_content generated index_data =
     (let content = guide_intro generated index_data;
          content = add_contents 1 (videos index_data) content;
          content = content @ guide_analysis_heading;
          content = add_video_sections (videos index_data) content
      in content @ guide_closing)"

definition create_markdown_documentation ::
  "env \<Rightarrow> frame_dir list \<Rightarrow> knowledge_index \<Rightarrow> world \<Rightarrow> path \<times> world" where
  "create_markdown_documentation env frame_dirs index_data w =
     (let doc_path = path_div (KNOWLEDGE_BASE_DIR env) ''NoCodeBackend_Learning_Guide.md'';
          generated = strftime_now env (tick w);
          w1 = w\<lparr>tick := Suc (tick w)\<rparr>;
          content = guide_content generated index_data;
          w2 = emit (Mkdir (parent doc_path) True) w1;
          w3 = emit (Write doc_path (Text content)) w2
      in (doc_path, w3))"

subsection \<open>The external tool\<close>

fun add_frame_paths :: "string list \<Rightarrow> string \<Rightarrow> string" where
  "add_frame_paths [] content = content"
| "add_frame_paths (frame_path # rest) content =
     add_frame_paths rest (content @ ''- Frame: '' @ frame_path @ ''\<newline>'')"

fun add_memvid_videos :: "video_info list \<Rightarrow> string \<Rightarrow> string" where
  "add_memvid_videos [] content = content"
| "add_memvid_videos (video # rest) content =
     add_memvid_videos rest
       (add_frame_paths (frames video) (content @ ''## '' @ name video @ ''\<newline>\<newline>''))"

text \<open>
  \<open>which_memvid env\<close> is what \<^verbatim>\<open>subprocess.run(["which", "memvid"], ...)\<close> does and
  \<open>memvid_create env\<close> what the run of \<^verbatim>\<open>memvid create\<close> does: an exception with its
  text, or a return code with the captured standard error. \<open>Run\<close> records the attempt.
\<close>

definition build_memvid_knowledge_base :: "env \<Rightarrow> knowledge_index \<Rightarrow> world \<Rightarrow> bool \<times> world" where
  "build_memvid_knowledge_base env index_data w =
     (let w1 = emit (Run [''which'', ''memvid'']) w in
      case which_memvid env of
        ProcRaises e \<Rightarrow> (False, log env (''Could not check for memvid: '' @ e) ''WARNING'' w1)
      | ProcExit returncode err \<Rightarrow>
          if returncode \<noteq> 0 then
            (False,
             seq [log env ''Memvid not found. Skipping memvid knowledge base creation.'' ''WARNING'',
                  log env ''Install memvid from: https://github.com/mem0ai/memvid'' ''INFO''] w1)
          else
            (let w2 = log env ''Building memvid knowledge base...'' ''INFO'' w1;
                 temp_doc = path_div (KNOWLEDGE_BASE_DIR env) ''temp_memvid_input.md'';
                 content = ''# NoCodeBackend Tutorials\<newline>\<newline>'';
                 content = add_memvid_videos (videos index_data) content;
                 w3 = emit (Write temp_doc (Text content)) w2;
                 cmd = [''memvid'', ''create'', KNOWLEDGE_BASE_NAME, str_path temp_doc];
                 w4 = emit (Run cmd) w3
             in case memvid_create env of
                  ProcRaises e \<Rightarrow>
                    (False, log env (''Error creating memvid knowledge base: '' @ e) ''ERROR'' w4)
                | ProcExit returncode stderr \<Rightarrow>
                    if returncode = 0 then
                      (True, log env ''Memvid knowledge base created successfully!'' ''SUCCESS'' w4)
                    else
                      (False,
                       log env (''Failed to create memvid knowledge base: '' @ stderr) ''ERROR'' w4)))"

subsection \<open>The main run\<close>

fun log_frame_dirs :: "env \<Rightarrow> frame_dir list \<Rightarrow> world \<Rightarrow> world" where
  "log_frame_dirs env [] w = w"
| "log_frame_dirs env (fd # rest) w =
     log_frame_dirs env rest
       (log env (''  - '' @ fd_name fd @ '': '' @ str_int (fd_frame_count fd) @ '' frames'')
          ''INFO'' w)"

definition main_nocodebackend :: "env \<Rightarrow> world \<Rightarrow> (exn + unit) \<times> world" where
  "main_nocodebackend env w =
     (let w = seq [log env (replicate 50 (CHR ''='')) ''INFO'',
                   log env ''NoCodeBackend Knowledge Base Builder'' ''INFO'',
                   log env (replicate 50 (CHR ''='')) ''INFO'',
                   log env ''Scanning for frame directories...'' ''INFO''] w
      in case find_all_frame_directories env w of
           (Inl e, w) \<Rightarrow> (Inl e, w)
         | (Inr frame_dirs, w) \<Rightarrow>
             if frame_dirs = [] then
               (Inl (SystemExit 1),
                log env ''No frame directories found. Please run the video processing script first.''
                  ''ERROR'' w)
             else
               (let w = log env (''Found '' @ str_int (int (length frame_dirs)) @ '' video frame sets'')
                          ''SUCCESS'' w;
                    w = log_frame_dirs env frame_dirs w;
                    w = log env ''\<newline>Creating knowledge index...'' ''INFO'' w;
                    (index_data, w) = create_knowledge_index env frame_dirs w;
                    index_path = path_div (KNOWLEDGE_BASE_DIR env) ''frame_index.json'';
                    w = emit (Mkdir (parent index_path) True) w;
                    w = emit (Write index_path (Json (json_of_knowledge_index index_data))) w;
                    w = log env (''Index saved to: '' @ str_path index_path) ''SUCCESS'' w;
                    w = log env ''\<newline>Generating learning guide...'' ''INFO'' w;
                    (doc_path, w) = create_markdown_documentation env frame_dirs index_data w;
                    w = log env (''Learning guide created: '' @ str_path doc_path) ''SUCCESS'' w;
                    w = log env ''\<newline>Attempting to build memvid knowledge base...'' ''INFO'' w;
                    (memvid_success, w) = build_memvid_knowledge_base env index_data w;
                    w = seq
                      [log env (''\<newline>'' @ replicate 50 (CHR ''='')) ''INFO'',
                       log env ''KNOWLEDGE BASE BUILD COMPLETE'' ''SUCCESS'',
                       log env (replicate 50 (CHR ''='')) ''INFO'',
                       log env (''Total Videos: '' @ str_int (total_videos index_data)) ''INFO'',
                       log env (''Total Frames: '' @ str_int (total_frames index_data)) ''INFO'',
                       log env (''Index File: '' @ str_path index_path) ''INFO'',
                       log env (''Learning Guide: '' @ str_path doc_path) ''INFO'',
                       log env (''Memvid KB: '' @ (if memvid_success then ''Created'' else ''Not Created''))
                         ''INFO'',
                       log env (''\<newline>'' @ [CHR 0xF0, CHR 0x9F, CHR 0x93, CHR 0x96] @ '' Next Steps:'')
                         ''INFO'',
                       log env ''1. Open the learning guide to start exploring'' ''INFO'',
                       log env ''2. Use Claude Code to analyze specific frames'' ''INFO'',
                       log env ''3. Document your learnings as you progress'' ''INFO''] w;
                    w = (if memvid_success then
                           seq
                             [log env (''\<newline>'' @ [CHR 0xF0, CHR 0x9F, CHR 0x94, CHR 0x8D] @
                                       '' Search the knowledge base:'') ''INFO'',
                              log env (''   memvid search '' @ [CHR 0x27] @ ''<your query>'' @ [CHR 0x27] @
                                       '' '' @ KNOWLEDGE_BASE_NAME) ''INFO''] w
                         else w)
                in (Inr (), w)))"

text \<open>
  The exit status of the process: 0 when \<^verbatim>\<open>main\<close> returns, the argument of
  \<^verbatim>\<open>sys.exit\<close>, and 1 when an exception reaches the top level.
\<close>

fun exit_status :: "exn + unit \<Rightarrow> int" where
  "exit_status (Inr u) = 0"
| "exit_status (Inl (SystemExit n)) = n"
| "exit_status (Inl e) = 1"

section \<open>intelligent_kb_builder.py\<close>

definition KB_BASE_DIR :: "env \<Rightarrow> path" where
  "KB_BASE_DIR env = path_div (HOME env) ''knowledge-bases''"

record KnowledgeBaseBuilder =
  topic :: string
  source_dir :: path
  kb_dir :: path
  topics_dir :: path
  tech_dir :: path
  code_dir :: path
  search_dir :: path

subsection \<open>The builder object\<close>

text \<open>The attributes the constructor assigns.\<close>

definition KnowledgeBaseBuilder_attrs :: "env \<Rightarrow> string \<Rightarrow> path \<Rightarrow> KnowledgeBaseBuilder" where
  "KnowledgeBaseBuilder_attrs env topic_arg source_dir_arg =
     (let kb = path_div (KB_BASE_DIR env) topic_arg
      in \<lparr>topic = topic_arg,
          source_dir = source_dir_arg,
          kb_dir = kb,
          topics_dir = path_div kb ''topics'',
          tech_dir = path_div kb ''technologies'',
          code_dir = path_div kb ''code-snippets'',
          search_dir = path_div kb ''search-index''\<rparr>)"



subsection \<open>Topic extraction\<close>

type_synonym topics = "(string \<times> string list) list"

text \<open>\<^verbatim>\<open>xs[::k]\<close> for a positive step: the elements at positions 0, k, 2k, ...\<close>

fun slice_step :: "nat \<Rightarrow> 'a list \<Rightarrow> 'a list" where
  "slice_step k [] = []"
| "slice_step k (x # xs) = x # slice_step k (drop (k - 1) xs)"

text \<open>The inner loop over the sampled frames; its body is \<^verbatim>\<open>pass\<close>.\<close>

fun analyse_sampled :: "path list \<Rightarrow> topics \<Rightarrow> topics" where
  "analyse_sampled [] topics = topics"
| "analyse_sampled (frame # rest) topics = analyse_sampled rest topics"

fun analyse_dirs :: "env \<Rightarrow> path list \<Rightarrow> topics \<times> world \<Rightarrow> topics \<times> world" where
  "analyse_dirs env [] (topics, w) = (topics, w)"
| "analyse_dirs env (video_dir # rest) (topics, w) =
     (let frames = sort (glob_png env video_dir);
          w = log env (''Processing '' @ str_int (int (length frames)) @ '' frames from '' @
                       name_of video_dir) ''INFO'' w;
          sample_interval = max 1 (length frames div 20);
          sampled_frames = slice_step sample_interval frames
      in analyse_dirs env rest (analyse_sampled sampled_frames topics, w))"

definition extract_topics_from_frames ::
  "env \<Rightarrow> KnowledgeBaseBuilder \<Rightarrow> path list \<Rightarrow> world \<Rightarrow> topics \<times> world" where
  "extract_topics_from_frames env self frame_directories w =
     (let topics =
            [(''authentication'', []),
             (''database'', []),
             (''api-design'', []),
             (''frontend'', []),
             (''deployment'', []),
             (''testing'', []),
             (''configuration'', [])];
          w = log env (''Analyzing '' @ str_int (int (length frame_directories)) @
                       '' video frame sets...'') ''INFO'' w
      in analyse_dirs env frame_directories (topics, w))"

subsection \<open>Topic directories\<close>

text \<open>\<^verbatim>\<open>s.title()\<close> on ASCII letters; every other byte is uncased.\<close>

definition is_lower :: "char \<Rightarrow> bool" where
  "is_lower c \<longleftrightarrow> CHR ''a'' \<le> c \<and> c \<le> CHR ''z''"

definition is_upper :: "char \<Rightarrow> bool" where
  "is_upper c \<longleftrightarrow> CHR ''A'' \<le> c \<and> c \<le> CHR ''Z''"

definition to_upper :: "char \<Rightarrow> char" where
  "to_upper c = (if is_lower c then char_of (of_char c - (32::nat)) else c)"

definition to_lower :: "char \<Rightarrow> char" where
  "to_lower c = (if is_upper c then char_of (of_char c + (32::nat)) else c)"

fun title_from :: "bool \<Rightarrow> string \<Rightarrow> string" where
  "title_from previous_is_cased [] = []"
| "title_from previous_is_cased (c # cs) =
     (if is_lower c then
        (if previous_is_cased then c else to_upper c) # title_from True cs
      else if is_upper c then
        (if previous_is_cased then to_lower c else c) # title_from True cs
      else c # title_from False cs)"

definition title :: "string \<Rightarrow> string" where
  "title s = title_from False s"

definition overview_text :: "KnowledgeBaseBuilder \<Rightarrow> string \<Rightarrow> string list \<Rightarrow> string" where
  \<open>overview_text self topic_name frame_paths =
     concat
      [''# '' @ title topic_name @ '' Concepts\<newline>'',
       ''\<newline>'',
       ''## Overview\<newline>'',
       ''\<newline>'',
       ''This topic covers '' @ topic_name @ '' concepts from the '' @ topic self @ '' tutorial series.\<newline>'',
       ''\<newline>'',
       ''## Key Concepts\<newline>'',
       ''\<newline>'',
       ''_To be populated with AI-extracted concepts_\<newline>'',
       ''\<newline>'',
       ''## Code Examples\<newline>'',
       ''\<newline>'',
       ''See the `code-examples/` directory for implementations.\<newline>'',
       ''\<newline>'',
       ''## Related Topics\<newline>'',
       ''\<newline>'',
       ''_To be populated with related topics_\<newline>'',
       ''\<newline>'',
       ''## Frames\<newline>'',
       ''\<newline>'',
       str_int (int (length frame_paths)) @ '' frames reference this topic.\<newline>'']\<close>

definition topic_metadata :: "string \<Rightarrow> string list \<Rightarrow> string \<Rightarrow> json" where
  "topic_metadata topic_name frame_paths last_updated =
     JObject
       [(''topic'', JString topic_name),
        (''frame_count'', JInt (int (length frame_paths))),
        (''last_updated'', JString last_updated),
        (''frames'', JArray (map JString frame_paths))]"

fun build_topic_structure :: "env \<Rightarrow> KnowledgeBaseBuilder \<Rightarrow> topics \<Rightarrow> world \<Rightarrow> world" where
  "build_topic_structure env self [] w = w"
| "build_topic_structure env self ((topic_name, frame_paths) # rest) w =
     (let topic_dir = path_div (topics_dir self) topic_name;
          w = emit (Mkdir topic_dir False) w;
          w = emit (Mkdir (path_div topic_dir ''concepts'') False) w;
          w = emit (Mkdir (path_div topic_dir ''code-examples'') False) w;
          w = emit (Mkdir (path_div topic_dir ''frames'') False) w;
          metadata = topic_metadata topic_name frame_paths (isoformat_now env (tick w));
          w = w\<lparr>tick := Suc (tick w)\<rparr>;
          w = emit (Write (path_div topic_dir ''metadata.json'') (Json metadata)) w;
          concepts_md = path_div (path_div topic_dir ''concepts'') ''overview.md'';
          w = emit (Write concepts_md (Text (overview_text self topic_name frame_paths))) w
      in build_topic_structure env self rest w)"

subsection \<open>The master index\<close>

record master_index = knowledge_index +
  knowledge_base :: string

fun json_of_video :: "video_info \<Rightarrow> json" where
  "json_of_video v =
     JObject
       [(''directory'', JString (directory v)),
        (''name'', JString (name v)),
        (''frame_count'', JInt (frame_count v)),
        (''frames'', JArray (map JString (frames v)))]"

definition json_of_master_index :: "master_index \<Rightarrow> json" where
  "json_of_master_index index =
     JObject
       [(''knowledge_base'', JString (knowledge_base index)),
        (''created_at'', JString (created_at index)),
        (''total_videos'', JInt (total_videos index)),
        (''total_frames'', JInt (total_frames index)),
        (''topics'', JObject []),
        (''technologies'', JObject []),
        (''videos'', JArray (map json_of_video (videos index)))]"

text \<open>The loop of \<^verbatim>\<open>create_master_index\<close>: the frames are those of a fresh glob, unsorted.\<close>

fun add_master_videos :: "env \<Rightarrow> path list \<Rightarrow> video_info list \<Rightarrow> video_info list" where
  "add_master_videos env [] vs = vs"
| "add_master_videos env (video_dir # rest) vs =
     add_master_videos env rest
       (let frames = glob_png env video_dir
        in vs @
          [\<lparr>name = name_of video_dir,
            frame_count = int (length frames),
            directory = str_path video_dir,
            frames = map str_path frames\<rparr>])"

definition create_master_index ::
  "env \<Rightarrow> KnowledgeBaseBuilder \<Rightarrow> path list \<Rightarrow> world \<Rightarrow> master_index \<times> world" where
  "create_master_index env self frame_directories w =
     (let index =
            \<lparr>created_at = isoformat_now env (tick w),
             total_videos = int (length frame_directories),
             total_frames = sum_list (map (\<lambda>d. int (length (glob_png env d))) frame_directories),
             videos = add_master_videos env frame_directories [],
             knowledge_base = topic self\<rparr>;
          w1 = w\<lparr>tick := Suc (tick w)\<rparr>;
          index_path = path_div (search_dir self) ''master_index.json'';
          w2 = emit (Write index_path (Json (json_of_master_index index))) w1;
          w3 = log env (''Master index created: '' @ str_path index_path) ''SUCCESS'' w2
      in (index, w3))"

subsection \<open>The search guide\<close>

definition search_guide_text :: "KnowledgeBaseBuilder \<Rightarrow> string \<Rightarrow> string" where
  \<open>search_guide_text self updated =
     concat
      [''# '' @ topic self @ '' Knowledge Base Search Guide\<newline>'',
       ''\<newline>'',
       ''## Quick Start\<newline>'',
       ''\<newline>'',
       ''This knowledge base can be searched in multiple ways:\<newline>'',
       ''\<newline>'',
       ''### 1. Browse by Topic\<newline>'',
       ''\<newline>'',
       ''```bash\<newline>'',
       ''cd '' @ str_path (topics_dir self) @ ''\<newline>'',
       ''ls\<newline>'',
       ''```\<newline>'',
       ''\<newline>'',
       ''Topics include:\<newline>'',
       ''- authentication\<newline>'',
       ''- database\<newline>'',
       ''- api-design\<newline>'',
       ''- frontend\<newline>'',
       ''- deployment\<newline>'',
       ''- testing\<newline>'',
       ''- configuration\<newline>'',
       ''\<newline>'',
       ''### 2. Browse by Technology\<newline>'',
       ''\<newline>'',
       ''```bash\<newline>'',
       ''cd '' @ str_path (tech_dir self) @ ''\<newline>'',
       ''ls\<newline>'',
       ''```\<newline>'',
       ''\<newline>'',
       ''### 3. Search Code Snippets\<newline>'',
       ''\<newline>'',
       ''```bash\<newline>'',
       ''cd '' @ str_path (code_dir self) @ ''\<newline>'',
       ''find . -name "*.js" -o -name "*.py" -o -name "*.json"\<newline>'',
       ''```\<newline>'',
       ''\<newline>'',
       ''### 4. Query with JSON Index\<newline>'',
       ''\<newline>'',
       ''```python\<newline>'',
       ''import json\<newline>'',
       ''\<newline>'',
       ''with open("'' @ str_path (search_dir self) @ ''/master_index.json") as f:\<newline>'',
       ''    index = json.load(f)\<newline>'',
       ''\<newline>'',
       ''# Search for frames\<newline>'',
       ''for video in index["videos"]:\<newline>'',
       ''    print(f"{video['' @ [CHR 0x27] @ ''name'' @ [CHR 0x27] @ '']}: {video['' @ [CHR 0x27] @ ''frame_count'' @ [CHR 0x27] @ '']} frames")\<newline>'',
       ''```\<newline>'',
       ''\<newline>'',
       ''## Using with Claude\<newline>'',
       ''\<newline>'',
       ''When working with Claude, you can ask:\<newline>'',
       ''\<newline>'',
       ''- "Show me frames related to authentication"\<newline>'',
       ''- "Find code examples for database setup"\<newline>'',
       ''- "What topics are covered in video 5?"\<newline>'',
       ''- "Extract all API endpoint examples"\<newline>'',
       ''\<newline>'',
       ''Claude can navigate this knowledge base structure to find relevant information.\<newline>'',
       ''\<newline>'',
       ''## Advanced Queries\<newline>'',
       ''\<newline>'',
       ''### Find Specific Frame\<newline>'',
       ''```bash\<newline>'',
       ''find '' @ str_path (kb_dir self) @ '' -name "frame_0045.png"\<newline>'',
       ''```\<newline>'',
       ''\<newline>'',
       ''### Search Topics\<newline>'',
       ''```bash\<newline>'',
       ''grep -r "authentication" '' @ str_path (topics_dir self) @ ''\<newline>'',
       ''```\<newline>'',
       ''\<newline>'',
       ''### List All Code Files\<newline>'',
       ''```bash\<newline>'',
       ''find '' @ str_path (code_dir self) @ '' -type f\<newline>'',
       ''```\<newline>'',
       ''\<newline>'',
       ''---\<newline>'',
       ''\<newline>'',
       ''**Last Updated:** '' @ updated @ ''\<newline>'']\<close>

definition create_search_guide :: "env \<Rightarrow> KnowledgeBaseBuilder \<Rightarrow> world \<Rightarrow> world" where
  "create_search_guide env self w =
     (let guide_path = path_div (kb_dir self) ''SEARCH_GUIDE.md'';
          updated = strftime_now env (tick w);
          w = w\<lparr>tick := Suc (tick w)\<rparr>;
          w = emit (Write guide_path (Text (search_guide_text self updated))) w
      in log env (''Search guide created: '' @ str_path guide_path) ''SUCCESS'' w)"

subsection \<open>The build and the entry point\<close>

definition build_metadata ::
  "KnowledgeBaseBuilder \<Rightarrow> string \<Rightarrow> master_index \<Rightarrow> topics \<Rightarrow> json" where
  "build_metadata self now index topics =
     JObject
       [(''topic'', JString (topic self)),
        (''created_at'', JString now),
        (''source_directory'', JString (str_path (source_dir self))),
        (''total_videos'', JInt (total_videos index)),
        (''total_frames'', JInt (total_frames index)),
        (''topics'', JArray (map (\<lambda>(k, v). JString k) topics)),
        (''version'', JString ''2.0'')]"

text \<open>The part of \<^verbatim>\<open>build\<close> after the check that frame directories were found.\<close>

definition build_found :: "env \<Rightarrow> KnowledgeBaseBuilder \<Rightarrow> path list \<Rightarrow> world \<Rightarrow> world" where
  "build_found env self frame_dirs w =
     (let w = log env (''Found '' @ str_int (int (length frame_dirs)) @ '' video frame sets'')
                ''SUCCESS'' w;
          w = log env (''\<newline>'' @ [CHR 0xF0, CHR 0x9F, CHR 0x93, CHR 0x8A] @
                       '' Extracting topics from frames...'') ''INFO'' w;
          (topics, w) = extract_topics_from_frames env self frame_dirs w;
          w = log env (''\<newline>'' @ [CHR 0xF0, CHR 0x9F, CHR 0x93, CHR 0x81] @
                       '' Building topic structure...'') ''INFO'' w;
          w = build_topic_structure env self topics w;
          w = log env (''\<newline>'' @ [CHR 0xF0, CHR 0x9F, CHR 0x94, CHR 0x8D] @
                       '' Creating master search index...'') ''INFO'' w;
          (index, w) = create_master_index env self frame_dirs w;
          w = log env (''\<newline>'' @ [CHR 0xF0, CHR 0x9F, CHR 0x93, CHR 0x96] @
                       '' Creating search guide...'') ''INFO'' w;
          w = create_search_guide env self w;
          metadata = build_metadata self (isoformat_now env (tick w)) index topics;
          w = w\<lparr>tick := Suc (tick w)\<rparr>;
          w = emit (Write (path_div (kb_dir self) ''metadata.json'') (Json metadata)) w;
          w = seq
            [log env (''\<newline>'' @ replicate 60 (CHR ''='')) ''INFO'',
             log env ''KNOWLEDGE BASE BUILD COMPLETE'' ''SUCCESS'',
             log env (replicate 60 (CHR ''='')) ''INFO'',
             log env (''Location: '' @ str_path (kb_dir self)) ''INFO'',
             log env (''Videos: '' @ str_int (total_videos index)) ''INFO'',
             log env (''Frames: '' @ str_int (total_frames index)) ''INFO'',
             log env (''Topics: '' @ str_int (int (length topics))) ''INFO'',
             log env (''\<newline>'' @ [CHR 0xF0, CHR 0x9F, CHR 0x93, CHR 0x96] @ '' Next Steps:'')
               ''INFO'',
             log env (''1. Review the search guide: '' @ str_path (kb_dir self) @
                      ''/SEARCH_GUIDE.md'') ''INFO'',
             log env (''2. Browse topics: '' @ str_path (topics_dir self)) ''INFO'',
             log env ''3. Ask Claude to search the knowledge base!'' ''INFO''] w
      in w)"

definition build :: "env \<Rightarrow> KnowledgeBaseBuilder \<Rightarrow> world \<Rightarrow> (exn + bool) \<times> world" where
  "build env self w =
     (let w = seq [log env (replicate 60 (CHR ''='')) ''INFO'',
                   log env (''Building Knowledge Base: '' @ topic self) ''INFO'',
                   log env (replicate 60 (CHR ''='')) ''INFO''] w
      in case iterdir env (source_dir self) of
           Inl e \<Rightarrow> (Inl e, w)
         | Inr children \<Rightarrow>
             (let frame_dirs = filter (\<lambda>d. is_dir env d \<and> glob_png env d \<noteq> []) children in
              if frame_dirs = [] then
                (Inr False, log env ''No frame directories found!'' ''ERROR'' w)
              else
                (Inr True, build_found env self frame_dirs w)))"


section \<open>A small directory tree\<close>

text \<open>
  A home directory with two frame directories under
  \<^verbatim>\<open>~/xtractedyt/frames/NoCodeBackend\<close>: \<^verbatim>\<open>intro\<close> with two frames, enumerated in
  descending order, and \<^verbatim>\<open>setup\<close> with seven; a text file and an empty directory
  beside them. The presence probe for the external tool fails.
\<close>

definition demo_root :: path where
  "demo_root = [''/'', ''home'', ''u'', ''xtractedyt'', ''frames'', ''NoCodeBackend'']"

definition demo_listdir :: "path \<Rightarrow> string list option" where
  "demo_listdir p =
     (if p = demo_root then Some [''intro'', ''README.md'', ''setup'', ''drafts'']
      else if p = demo_root @ [''intro''] then
        Some [''frame_0002.png'', ''frame_0001.png'', ''notes.txt'']
      else if p = demo_root @ [''setup''] then
        Some [''f7.png'', ''f3.png'', ''f1.png'', ''f6.png'', ''f2.png'', ''f5.png'', ''f4.png'']
      else if p = demo_root @ [''drafts''] then Some []
      else if p = [''/'', ''home'', ''u''] then Some [''xtractedyt'']
      else if p = [''/'', ''home'', ''u'', ''xtractedyt''] then Some [''frames'']
      else if p = [''/'', ''home'', ''u'', ''xtractedyt'', ''frames''] then Some [''NoCodeBackend'']
      else None)"

definition demo_env :: env where
  "demo_env =
     \<lparr>HOME = [''/'', ''home'', ''u''],
      listdir = demo_listdir,
      is_file = (\<lambda>p. p = demo_root @ [''README.md'']),
      strftime_now = (\<lambda>n. ''2025-01-01 00:00:'' @ str_nat (10 + n)),
      isoformat_now = (\<lambda>n. ''2025-01-01T00:00:'' @ str_nat (10 + n)),
      which_memvid = ProcExit 1 [],
      memvid_create = ProcExit 0 []\<rparr>"

definition demo_builder :: KnowledgeBaseBuilder where
  "demo_builder = KnowledgeBaseBuilder_attrs demo_env ''NoCodeBackend'' demo_root"


definition demo_frame_dirs :: "frame_dir list" where
  "demo_frame_dirs =
     [\<lparr>fd_path = demo_root @ [''intro''], fd_name = ''intro'', fd_frame_count = 2,
       fd_frames = [demo_root @ [''intro'', ''frame_0001.png''],
                    demo_root @ [''intro'', ''frame_0002.png'']]\<rparr>,
      \<lparr>fd_path = demo_root @ [''setup''], fd_name = ''setup'', fd_frame_count = 7,
       fd_frames = map (\<lambda>n. demo_root @ [''setup'', n])
         [''f1.png'', ''f2.png'', ''f3.png'', ''f4.png'', ''f5.png'', ''f6.png'', ''f7.png'']\<rparr>]"

definition demo_video_intro :: video_info where
  "demo_video_intro =
     \<lparr>name = ''intro'', frame_count = 2,
      directory = ''/home/u/xtractedyt/frames/NoCodeBackend/intro'',
      frames = [''/home/u/xtractedyt/frames/NoCodeBackend/intro/frame_0001.png'',
                ''/home/u/xtractedyt/frames/NoCodeBackend/intro/frame_0002.png'']\<rparr>"

definition demo_video_setup :: video_info where
  "demo_video_setup =
     \<lparr>name = ''setup'', frame_count = 7,
      directory = ''/home/u/xtractedyt/frames/NoCodeBackend/setup'',
      frames = map (\<lambda>n. ''/home/u/xtractedyt/frames/NoCodeBackend/setup/'' @ n)
        [''f1.png'', ''f2.png'', ''f3.png'', ''f4.png'', ''f5.png'', ''f6.png'', ''f7.png'']\<rparr>"

text \<open>The same tree where the tool is present and its run fails.\<close>

definition demo_env_failing :: env where
  "demo_env_failing =
     demo_env\<lparr>which_memvid := ProcExit 0 [], memvid_create := ProcExit 2 ''no such command''\<rparr>"

text \<open>The topics of a build on the small tree.\<close>

definition demo_topics :: topics where
  "demo_topics =
     fst (extract_topics_from_frames demo_env demo_builder
            [demo_root @ [''intro''], demo_root @ [''setup'']] world0)"

definition demo_topics_dir :: path where
  "demo_topics_dir = [''/'', ''home'', ''u'', ''knowledge-bases'', ''NoCodeBackend'', ''topics'']"


section \<open>Properties of the index builders\<close>

lemma add_videos_eq:
  "add_videos ds vs =
     vs @ map (\<lambda>d. \<lparr>name = fd_name d, frame_count = fd_frame_count d,
                     directory = str_path (fd_path d),
                     frames = map str_path (fd_frames d)\<rparr>) ds"
  by (induction ds arbitrary: vs) simp_all

lemma add_master_videos_eq:
  "add_master_videos env ds vs =
     vs @ map (\<lambda>d. \<lparr>name = name_of d, frame_count = int (length (glob_png env d)),
                     directory = str_path d,
                     frames = map str_path (glob_png env d)\<rparr>) ds"
  by (induction ds arbitrary: vs) (simp_all add: Let_def)

text \<open>
  C1. In the index of either builder, \<open>total_frames\<close> is the sum of the \<open>frame_count\<close>
  fields of the video entries and \<open>total_videos\<close> is the number of video entries, for
  every list of scanned directories, the empty one included.
\<close>

theorem index_totals:
  "total_frames (fst (create_knowledge_index env frame_dirs w)) =
     sum_list (map frame_count (videos (fst (create_knowledge_index env frame_dirs w)))) \<and>
   total_videos (fst (create_knowledge_index env frame_dirs w)) =
     int (length (videos (fst (create_knowledge_index env frame_dirs w)))) \<and>
   total_frames (fst (create_master_index env self frame_directories w)) =
     sum_list (map frame_count (videos (fst (create_master_index env self frame_directories w)))) \<and>
   total_videos (fst (create_master_index env self frame_directories w)) =
     int (length (videos (fst (create_master_index env self frame_directories w))))"
  by (simp add: create_knowledge_index_def create_master_index_def Let_def
      add_videos_eq add_master_videos_eq comp_def)

lemma scan_items_eq:
  "scan_items env items acc =
     acc @ map (\<lambda>item. \<lparr>fd_path = item, fd_name = name_of item,
                          fd_frame_count = int (length (glob_png env item)),
                          fd_frames = sort (glob_png env item)\<rparr>)
             (filter (\<lambda>item. is_dir env item \<and> glob_png env item \<noteq> []) items)"
  by (induction items arbitrary: acc) (simp_all add: Let_def)

lemma find_all_frame_directories_cases:
  assumes "find_all_frame_directories env w = (Inr fds, w')"
  shows "fds = [] \<or> (\<exists>items. fds = scan_items env items [])"
  using assms
  by (auto simp: find_all_frame_directories_def split: if_splits sum.splits)

lemma scanned_frame_count:
  assumes "find_all_frame_directories env w = (Inr fds, w')" and "d \<in> set fds"
  shows "fd_frame_count d = int (length (fd_frames d))"
  using find_all_frame_directories_cases [OF assms(1)] assms(2)
  by (auto simp: scan_items_eq)

subsection \<open>The run on the small tree\<close>

lemma demo_NOCODEBACKEND_DIR: "NOCODEBACKEND_DIR demo_env = demo_root"
  by (simp add: NOCODEBACKEND_DIR_def demo_env_def demo_root_def path_div_def Path_def
      splitroot_def is_absolute_def is_root_def)

lemma demo_scan: "find_all_frame_directories demo_env world0 = (Inr demo_frame_dirs, world0)"
  unfolding demo_frame_dirs_def
  by (simp add: find_all_frame_directories_def demo_NOCODEBACKEND_DIR exists_def iterdir_def)
     (simp add: demo_env_def demo_listdir_def demo_root_def glob_png_def endswith_def
        is_dir_def name_of_def is_root_def Let_def)

lemma demo_videos:
  "videos (fst (create_knowledge_index demo_env demo_frame_dirs world0)) =
     [demo_video_intro, demo_video_setup]"
  by (simp add: create_knowledge_index_def demo_frame_dirs_def demo_root_def str_path_def
      is_root_def demo_video_intro_def demo_video_setup_def)

subsection \<open>Frame counts\<close>

text \<open>
  C9. In every video entry of either index, \<open>frame_count\<close> is the length of the entry's
  own \<open>frames\<close> list: for the first builder on what the scanner returns, for the master
  index on any list of directories.
\<close>

theorem frame_count_is_length:
  "(find_all_frame_directories env w0 = (Inr frame_dirs, w1) \<longrightarrow>
      (\<forall>v \<in> set (videos (fst (create_knowledge_index env frame_dirs w))).
         frame_count v = int (length (frames v)))) \<and>
   (\<forall>v \<in> set (videos (fst (create_master_index env self frame_directories w))).
      frame_count v = int (length (frames v)))"
proof (intro conjI impI ballI)
  fix v
  assume scan: "find_all_frame_directories env w0 = (Inr frame_dirs, w1)"
    and v: "v \<in> set (videos (fst (create_knowledge_index env frame_dirs w)))"
  from v obtain d where d: "d \<in> set frame_dirs"
    and "frame_count v = fd_frame_count d" and "frames v = map str_path (fd_frames d)"
    by (auto simp: create_knowledge_index_def add_videos_eq)
  with scanned_frame_count [OF scan d] show "frame_count v = int (length (frames v))"
    by simp
next
  fix v
  assume "v \<in> set (videos (fst (create_master_index env self frame_directories w)))"
  then show "frame_count v = int (length (frames v))"
    by (auto simp: create_master_index_def Let_def add_master_videos_eq)
qed

theorem frame_count_is_length_witness:
  "find_all_frame_directories demo_env world0 = (Inr demo_frame_dirs, world0) \<and>
   demo_video_setup \<in> set (videos (fst (create_knowledge_index demo_env demo_frame_dirs world0))) \<and>
   frame_count demo_video_setup = int (length (frames demo_video_setup)) \<and>
   frame_count demo_video_setup = 7 \<and>
   videos (fst (create_master_index demo_env demo_builder [demo_root @ [''intro'']] world0))
     \<noteq> [] \<and>
   frame_count (hd (videos (fst (create_master_index demo_env demo_builder
                                   [demo_root @ [''intro'']] world0)))) =
     int (length (frames (hd (videos (fst (create_master_index demo_env demo_builder
                                   [demo_root @ [''intro'']] world0))))))"
proof -
  have mem: "demo_video_setup
      \<in> set (videos (fst (create_knowledge_index demo_env demo_frame_dirs world0)))"
    by (simp add: demo_videos)
  have ne: "videos (fst (create_master_index demo_env demo_builder
      [demo_root @ [''intro'']] world0)) \<noteq> []"
    by (simp add: create_master_index_def Let_def)
  then have hd_mem: "hd (videos (fst (create_master_index demo_env demo_builder
      [demo_root @ [''intro'']] world0)))
      \<in> set (videos (fst (create_master_index demo_env demo_builder
      [demo_root @ [''intro'']] world0)))"
    by (rule hd_in_set)
  note inst = frame_count_is_length [of demo_env world0 demo_frame_dirs world0 world0
      demo_builder "[demo_root @ [''intro'']]"]
  from inst demo_scan mem have "frame_count demo_video_setup = int (length (frames demo_video_setup))"
    by (elim conjE impE) (assumption, elim ballE [of _ _ demo_video_setup], simp_all)
  moreover from inst hd_mem have "frame_count (hd (videos (fst (create_master_index demo_env
      demo_builder [demo_root @ [''intro'']] world0)))) =
     int (length (frames (hd (videos (fst (create_master_index demo_env demo_builder
                                   [demo_root @ [''intro'']] world0))))))"
    by (elim conjE) (erule ballE [of _ _ "hd (videos (fst (create_master_index demo_env
      demo_builder [demo_root @ [''intro'']] world0)))"], simp_all)
  moreover have "frame_count demo_video_setup = 7"
    by (simp add: demo_video_setup_def)
  ultimately show ?thesis
    using demo_scan mem ne by simp
qed

subsection \<open>Frame order\<close>

lemma same_prefix_le: "(xs @ ys \<le> xs @ zs) = (ys \<le> (zs :: 'a :: linorder list))"
  by (induction xs) simp_all

lemma glob_png_name:
  assumes "p \<in> set (glob_png env item)"
  shows "\<exists>n. p = item @ [n] \<and> name_of p = n"
  using assms
  by (auto simp: glob_png_def name_of_def is_root_def endswith_def split: option.splits)

lemma sorted_names_of_glob: "sorted (map name_of (sort (glob_png env item)))"
proof -
  have "sorted_wrt (\<lambda>a b. name_of a \<le> name_of b) (sort (glob_png env item))"
  proof (rule sorted_wrt_mono_rel [of _ "(\<le>)"])
    fix a b
    assume "a \<in> set (sort (glob_png env item))" "b \<in> set (sort (glob_png env item))" "a \<le> b"
    then obtain n m where "a = item @ [n]" "name_of a = n" "b = item @ [m]" "name_of b = m"
      using glob_png_name by (metis set_sort)
    with \<open>a \<le> b\<close> show "name_of a \<le> name_of b"
      by (auto simp: same_prefix_le)
  qed simp
  then show ?thesis by (simp add: sorted_map)
qed

text \<open>
  What the scanner of \<^verbatim>\<open>build_nocodebackend_knowledge.py\<close> returns is sorted, by path
  and by file name, and is a permutation of what the directory enumerates.
\<close>

lemma scanner_frames_sorted:
  assumes "find_all_frame_directories env w = (Inr fds, w')" and "d \<in> set fds"
  shows "sorted (fd_frames d) \<and> sorted (map name_of (fd_frames d)) \<and>
         mset (fd_frames d) = mset (glob_png env (fd_path d))"
  using find_all_frame_directories_cases [OF assms(1)] assms(2)
  by (auto simp: scan_items_eq sorted_names_of_glob)

lemma demo_builder_eq:
  "demo_builder =
     \<lparr>topic = ''NoCodeBackend'', source_dir = demo_root,
      kb_dir = [''/'', ''home'', ''u'', ''knowledge-bases'', ''NoCodeBackend''],
      topics_dir = [''/'', ''home'', ''u'', ''knowledge-bases'', ''NoCodeBackend'', ''topics''],
      tech_dir = [''/'', ''home'', ''u'', ''knowledge-bases'', ''NoCodeBackend'', ''technologies''],
      code_dir = [''/'', ''home'', ''u'', ''knowledge-bases'', ''NoCodeBackend'', ''code-snippets''],
      search_dir = [''/'', ''home'', ''u'', ''knowledge-bases'', ''NoCodeBackend'', ''search-index'']\<rparr>"
  by (simp add: demo_builder_def KnowledgeBaseBuilder_attrs_def KB_BASE_DIR_def Let_def
      demo_env_def path_div_def Path_def splitroot_def is_absolute_def is_root_def)

text \<open>
  C2. The frames of a video entry are to be in ascending file-name order whatever order
  the directory enumerates. \<^verbatim>\<open>create_master_index\<close> does not sort: on the small tree,
  where \<^verbatim>\<open>intro\<close> enumerates \<^verbatim>\<open>frame_0002.png\<close> before \<^verbatim>\<open>frame_0001.png\<close>, the entry
  of the master index lists the frames in that order, which is not ascending.
\<close>

theorem master_index_frames_unsorted:
  "frames (hd (videos (fst (create_master_index demo_env demo_builder
       [demo_root @ [''intro''], demo_root @ [''setup'']] world0)))) =
     [''/home/u/xtractedyt/frames/NoCodeBackend/intro/frame_0002.png'',
      ''/home/u/xtractedyt/frames/NoCodeBackend/intro/frame_0001.png''] \<and>
   \<not> sorted (map (\<lambda>f. name_of (Path f))
       (frames (hd (videos (fst (create_master_index demo_env demo_builder
          [demo_root @ [''intro''], demo_root @ [''setup'']] world0))))))"
  by (simp add: create_master_index_def Let_def glob_png_def demo_env_def demo_listdir_def
      demo_root_def endswith_def str_path_def is_root_def name_of_def Path_def splitroot_def)


subsection \<open>The learning guide\<close>

lemma add_contents_eq:
  "add_contents idx vs content =
     content @ concat (map (\<lambda>(i, v). contents_line i v) (zip [idx ..< idx + length vs] vs))"
proof (induction vs arbitrary: idx content)
  case Nil
  then show ?case by simp
next
  case (Cons v vs)
  have "[idx ..< idx + length (v # vs)] = idx # [Suc idx ..< Suc idx + length vs]"
    by (simp add: upt_rec)
  with Cons show ?case by simp
qed

lemma add_sample_frames_eq:
  "add_sample_frames fs content = content @ concat (map sample_frame_line fs)"
  by (induction fs arbitrary: content) simp_all

lemma add_video_sections_eq:
  "add_video_sections vs content = content @ concat (map (\<lambda>v. add_video_section v []) vs)"
proof (induction vs arbitrary: content)
  case Nil
  then show ?case by simp
next
  case (Cons v vs)
  have "add_video_section v content = content @ add_video_section v []"
    by (simp add: add_video_section_def Let_def add_sample_frames_eq)
  with Cons show ?case by simp
qed

lemma guide_content_eq:
  "guide_content generated index_data =
     guide_intro generated index_data @
     concat (map (\<lambda>(i, v). contents_line i v)
               (zip [1 ..< 1 + length (videos index_data)] (videos index_data))) @
     guide_analysis_heading @
     concat (map (\<lambda>v. add_video_section v []) (videos index_data)) @
     guide_closing"
  by (simp add: guide_content_def Let_def add_contents_eq add_video_sections_eq)

lemma str_int_digit: "str_int 2 = ''2''" "str_int 7 = ''7''"
  by (simp_all add: str_int_def str_nat.simps digit_char_def char_of_def bit_0)

lemma video_section_cases:
  assumes "frame_count video = int (length (frames video))"
  shows "(5 < frame_count video \<longrightarrow>
            length (take 5 (frames video)) = 5 \<and>
            add_video_section video [] =
              video_heading video @ ''Sample frames:\<newline>'' @
              concat (map sample_frame_line (take 5 (frames video))) @
              more_frames_line (frame_count video - 5) @ ''\<newline>'') \<and>
         (frame_count video \<le> 5 \<longrightarrow>
            add_video_section video [] =
              video_heading video @ ''Sample frames:\<newline>'' @
              concat (map sample_frame_line (frames video)) @ ''\<newline>'')"
  using assms by (simp add: add_video_section_def Let_def add_sample_frames_eq)

lemma guide_written:
  "trace (snd (create_markdown_documentation env frame_dirs index_data w)) =
     trace w @
     [Mkdir (parent (path_div (KNOWLEDGE_BASE_DIR env) ''NoCodeBackend_Learning_Guide.md'')) True,
      Write (path_div (KNOWLEDGE_BASE_DIR env) ''NoCodeBackend_Learning_Guide.md'')
        (Text (guide_content (strftime_now env (tick w)) index_data))]"
  by (simp add: create_markdown_documentation_def Let_def emit_def)

text \<open>
  C3. The learning guide that \<^verbatim>\<open>create_markdown_documentation\<close> writes holds, between the
  frame-analysis heading and the closing part, one section per video entry of the index,
  in order. The section of an entry with more than five frames lists the file names of
  exactly its first five frames and then one line with the remaining count; the section
  of an entry with at most five frames lists all of them and has no such line.
\<close>

theorem guide_sample_frames:
  assumes "find_all_frame_directories env w0 = (Inr frame_dirs, w1)"
    and "index_data = fst (create_knowledge_index env frame_dirs w2)"
  shows "\<exists>sections.
      trace (snd (create_markdown_documentation env frame_dirs index_data w)) =
        trace w @
        [Mkdir (parent (path_div (KNOWLEDGE_BASE_DIR env) ''NoCodeBackend_Learning_Guide.md''))
           True,
         Write (path_div (KNOWLEDGE_BASE_DIR env) ''NoCodeBackend_Learning_Guide.md'')
           (Text (guide_intro (strftime_now env (tick w)) index_data @
                  concat (map (\<lambda>(i, v). contents_line i v)
                            (zip [1 ..< 1 + length (videos index_data)] (videos index_data))) @
                  guide_analysis_heading @ concat sections @ guide_closing))] \<and>
      length sections = length (videos index_data) \<and>
      (\<forall>i < length (videos index_data).
         (5 < frame_count (videos index_data ! i) \<longrightarrow>
            length (take 5 (frames (videos index_data ! i))) = 5 \<and>
            sections ! i =
              video_heading (videos index_data ! i) @ ''Sample frames:\<newline>'' @
              concat (map sample_frame_line (take 5 (frames (videos index_data ! i)))) @
              more_frames_line (frame_count (videos index_data ! i) - 5) @ ''\<newline>'') \<and>
         (frame_count (videos index_data ! i) \<le> 5 \<longrightarrow>
            sections ! i =
              video_heading (videos index_data ! i) @ ''Sample frames:\<newline>'' @
              concat (map sample_frame_line (frames (videos index_data ! i))) @ ''\<newline>''))"
proof -
  have wf: "frame_count video = int (length (frames video))"
    if "video \<in> set (videos index_data)" for video
    using that assms(2) scanned_frame_count [OF assms(1)]
    by (auto simp: create_knowledge_index_def add_videos_eq)
  define sections where "sections = map (\<lambda>v. add_video_section v []) (videos index_data)"
  have len: "length sections = length (videos index_data)"
    by (simp add: sections_def)
  have nth: "sections ! i = add_video_section (videos index_data ! i) []"
    if "i < length (videos index_data)" for i
    using that by (simp add: sections_def)
  have written: "trace (snd (create_markdown_documentation env frame_dirs index_data w)) =
        trace w @
        [Mkdir (parent (path_div (KNOWLEDGE_BASE_DIR env) ''NoCodeBackend_Learning_Guide.md''))
           True,
         Write (path_div (KNOWLEDGE_BASE_DIR env) ''NoCodeBackend_Learning_Guide.md'')
           (Text (guide_intro (strftime_now env (tick w)) index_data @
                  concat (map (\<lambda>(i, v). contents_line i v)
                            (zip [1 ..< 1 + length (videos index_data)] (videos index_data))) @
                  guide_analysis_heading @ concat sections @ guide_closing))]"
    unfolding guide_written guide_content_eq sections_def by simp
  have each: "(5 < frame_count (videos index_data ! i) \<longrightarrow>
            length (take 5 (frames (videos index_data ! i))) = 5 \<and>
            sections ! i =
              video_heading (videos index_data ! i) @ ''Sample frames:\<newline>'' @
              concat (map sample_frame_line (take 5 (frames (videos index_data ! i)))) @
              more_frames_line (frame_count (videos index_data ! i) - 5) @ ''\<newline>'') \<and>
         (frame_count (videos index_data ! i) \<le> 5 \<longrightarrow>
            sections ! i =
              video_heading (videos index_data ! i) @ ''Sample frames:\<newline>'' @
              concat (map sample_frame_line (frames (videos index_data ! i))) @ ''\<newline>'')"
    if "i < length (videos index_data)" for i
    unfolding nth [OF that]
    by (rule video_section_cases) (rule wf, simp add: that)
  from written len each show ?thesis
    by (intro exI [of _ sections]) (simp del: One_nat_def)
qed


theorem guide_sample_frames_witness:
  "find_all_frame_directories demo_env world0 = (Inr demo_frame_dirs, world0) \<and>
   videos (fst (create_knowledge_index demo_env demo_frame_dirs world0)) =
     [demo_video_intro, demo_video_setup] \<and>
   frame_count demo_video_intro = 2 \<and> frame_count demo_video_setup = 7 \<and>
   trace (snd (create_markdown_documentation demo_env demo_frame_dirs
                 (fst (create_knowledge_index demo_env demo_frame_dirs world0)) world0)) =
     [Mkdir (demo_root @ [''knowledge_base'']) True,
      Write (demo_root @ [''knowledge_base'', ''NoCodeBackend_Learning_Guide.md''])
        (Text (guide_intro (strftime_now demo_env 0)
                 (fst (create_knowledge_index demo_env demo_frame_dirs world0)) @
               (contents_line 1 demo_video_intro @ contents_line 2 demo_video_setup) @
               guide_analysis_heading @
               ((''#### intro\<newline>\<newline>'' @
                 ''- **Frames:** 2\<newline>'' @
                 ''- **Directory:** `/home/u/xtractedyt/frames/NoCodeBackend/intro`\<newline>\<newline>'' @
                 ''Sample frames:\<newline>'' @
                 ''- `frame_0001.png`\<newline>- `frame_0002.png`\<newline>'' @ ''\<newline>'') @
                (''#### setup\<newline>\<newline>'' @
                 ''- **Frames:** 7\<newline>'' @
                 ''- **Directory:** `/home/u/xtractedyt/frames/NoCodeBackend/setup`\<newline>\<newline>'' @
                 ''Sample frames:\<newline>'' @
                 ''- `f1.png`\<newline>- `f2.png`\<newline>- `f3.png`\<newline>- `f4.png`\<newline>- `f5.png`\<newline>'' @
                 ''- ... and 2 more frames\<newline>'' @ ''\<newline>'')) @
               guide_closing))]"
proof -
  let ?index = "fst (create_knowledge_index demo_env demo_frame_dirs world0)"
  from guide_sample_frames [OF demo_scan refl, of world0 world0]
  obtain sections where
    written: "trace (snd (create_markdown_documentation demo_env demo_frame_dirs ?index world0)) =
        trace world0 @
        [Mkdir (parent (path_div (KNOWLEDGE_BASE_DIR demo_env) ''NoCodeBackend_Learning_Guide.md''))
           True,
         Write (path_div (KNOWLEDGE_BASE_DIR demo_env) ''NoCodeBackend_Learning_Guide.md'')
           (Text (guide_intro (strftime_now demo_env (tick world0)) ?index @
                  concat (map (\<lambda>(i, v). contents_line i v)
                            (zip [1 ..< 1 + length (videos ?index)] (videos ?index))) @
                  guide_analysis_heading @ concat sections @ guide_closing))]"
    and len: "length sections = length (videos ?index)"
    and each: "\<forall>i < length (videos ?index).
         (5 < frame_count (videos ?index ! i) \<longrightarrow>
            length (take 5 (frames (videos ?index ! i))) = 5 \<and>
            sections ! i =
              video_heading (videos ?index ! i) @ ''Sample frames:\<newline>'' @
              concat (map sample_frame_line (take 5 (frames (videos ?index ! i)))) @
              more_frames_line (frame_count (videos ?index ! i) - 5) @ ''\<newline>'') \<and>
         (frame_count (videos ?index ! i) \<le> 5 \<longrightarrow>
            sections ! i =
              video_heading (videos ?index ! i) @ ''Sample frames:\<newline>'' @
              concat (map sample_frame_line (frames (videos ?index ! i))) @ ''\<newline>'')"
    by blast
  have fc: "frame_count demo_video_intro = 2" "frame_count demo_video_setup = 7"
    by (simp_all add: demo_video_intro_def demo_video_setup_def)
  from len have len2: "length sections = 2"
    by (simp add: demo_videos)
  from each [rule_format, of 0] have s0: "sections ! 0 =
      video_heading demo_video_intro @ ''Sample frames:\<newline>'' @
      concat (map sample_frame_line (frames demo_video_intro)) @ ''\<newline>''"
    by (simp add: demo_videos fc)
  from each [rule_format, of 1] have s1: "sections ! 1 =
      video_heading demo_video_setup @ ''Sample frames:\<newline>'' @
      concat (map sample_frame_line (take 5 (frames demo_video_setup))) @
      more_frames_line (frame_count demo_video_setup - 5) @ ''\<newline>''"
    by (simp add: demo_videos fc)
  have "sections = [sections ! 0, sections ! 1]"
    using len2 by (cases sections; cases "tl sections") auto
  then have sec: "concat sections = sections ! 0 @ sections ! 1"
    by (metis concat.simps(1) concat.simps(2) append_Nil2)
  have paths: "path_div (KNOWLEDGE_BASE_DIR demo_env) ''NoCodeBackend_Learning_Guide.md'' =
      demo_root @ [''knowledge_base'', ''NoCodeBackend_Learning_Guide.md'']"
    "parent (demo_root @ [''knowledge_base'', ''NoCodeBackend_Learning_Guide.md'']) =
      demo_root @ [''knowledge_base'']"
    by (simp_all add: KNOWLEDGE_BASE_DIR_def demo_NOCODEBACKEND_DIR path_div_def Path_def
        splitroot_def is_absolute_def is_root_def parent_def demo_root_def)
  have zip2: "concat (map (\<lambda>(i, v). contents_line i v)
                (zip [1 ..< 1 + length (videos ?index)] (videos ?index))) =
      contents_line 1 demo_video_intro @ contents_line 2 demo_video_setup"
    by (simp add: demo_videos upt_rec numeral_2_eq_2)
  have text0: "sections ! 0 =
      ''#### intro\<newline>\<newline>'' @
      ''- **Frames:** 2\<newline>'' @
      ''- **Directory:** `/home/u/xtractedyt/frames/NoCodeBackend/intro`\<newline>\<newline>'' @
      ''Sample frames:\<newline>'' @
      ''- `frame_0001.png`\<newline>- `frame_0002.png`\<newline>'' @ ''\<newline>''"
    unfolding s0
    by (simp add: demo_video_intro_def video_heading_def str_int_digit
        sample_frame_line_def name_of_def Path_def splitroot_def is_root_def)
  have text1: "sections ! 1 =
      ''#### setup\<newline>\<newline>'' @
      ''- **Frames:** 7\<newline>'' @
      ''- **Directory:** `/home/u/xtractedyt/frames/NoCodeBackend/setup`\<newline>\<newline>'' @
      ''Sample frames:\<newline>'' @
      ''- `f1.png`\<newline>- `f2.png`\<newline>- `f3.png`\<newline>- `f4.png`\<newline>- `f5.png`\<newline>'' @
      ''- ... and 2 more frames\<newline>'' @ ''\<newline>''"
    unfolding s1
    by (simp add: demo_video_setup_def video_heading_def str_int_digit
        sample_frame_line_def more_frames_line_def name_of_def Path_def splitroot_def is_root_def)
  show ?thesis
    unfolding written sec zip2 paths text0 text1
    using demo_scan demo_videos fc by (simp add: world0_def)
qed

subsection \<open>The external tool and the main run\<close>

lemma trace_emit [simp]: "trace (emit e w) = trace w @ [e]"
  and tick_emit [simp]: "tick (emit e w) = tick w"
  by (simp_all add: emit_def)

lemma trace_log [simp]:
  "trace (log env message level w) =
     trace w @ [Print (log_line (strftime_now env (tick w)) level message)]"
  and tick_log [simp]: "tick (log env message level w) = Suc (tick w)"
  by (simp_all add: log_def Let_def)

lemma seq_simps [simp]: "seq [] w = w" "seq (step # steps) w = seq steps (step w)"
  by (simp_all add: seq_def)

lemma scan_result_any_world:
  assumes "fst (find_all_frame_directories env w) = Inr fds" and "fds \<noteq> []"
  shows "find_all_frame_directories env w' = (Inr fds, w')"
  using assms
  by (auto simp: find_all_frame_directories_def split: if_splits sum.splits)

lemma memvid_success_iff:
  "fst (build_memvid_knowledge_base env index_data w) \<longleftrightarrow>
     (\<exists>err err'. which_memvid env = ProcExit 0 err \<and> memvid_create env = ProcExit 0 err')"
  by (auto simp: build_memvid_knowledge_base_def Let_def split: proc.splits)

lemma memvid_trace_mono:
  "e \<in> set (trace w) \<Longrightarrow> e \<in> set (trace (snd (build_memvid_knowledge_base env index_data w)))"
  by (auto simp: build_memvid_knowledge_base_def Let_def split: proc.splits)

lemma log_frame_dirs_mono:
  "e \<in> set (trace w) \<Longrightarrow> e \<in> set (trace (log_frame_dirs env fds w))"
  by (induction fds arbitrary: w) simp_all

lemma main_run:
  assumes scan: "fst (find_all_frame_directories env world0) = Inr frame_dirs"
    and nonempty: "frame_dirs \<noteq> []"
    and fails: "\<forall>i v. \<not> fst (build_memvid_knowledge_base env i v)"
  shows "fst (main_nocodebackend env w) = Inr () \<and>
     (\<exists>index_data generated t.
        videos index_data = videos (fst (create_knowledge_index env frame_dirs world0)) \<and>
        Write (path_div (KNOWLEDGE_BASE_DIR env) ''frame_index.json'')
           (Json (json_of_knowledge_index index_data))
          \<in> set (trace (snd (main_nocodebackend env w))) \<and>
        Write (path_div (KNOWLEDGE_BASE_DIR env) ''NoCodeBackend_Learning_Guide.md'')
           (Text (guide_content generated index_data))
          \<in> set (trace (snd (main_nocodebackend env w))) \<and>
        Print (log_line (strftime_now env t) ''INFO'' ''Memvid KB: Not Created'')
          \<in> set (trace (snd (main_nocodebackend env w))))"
proof -
  have no: "\<not> fst (build_memvid_knowledge_base env i v)" for i v
    using fails by simp
  note sc = scan_result_any_world [OF scan nonempty]
  define w1 where "w1 = log_frame_dirs env frame_dirs
      (log env (''Found '' @ str_int (int (length frame_dirs)) @ '' video frame sets'') ''SUCCESS''
        (seq [log env (replicate 50 (CHR ''='')) ''INFO'',
              log env ''NoCodeBackend Knowledge Base Builder'' ''INFO'',
              log env (replicate 50 (CHR ''='')) ''INFO'',
              log env ''Scanning for frame directories...'' ''INFO''] w))"
  define w2 where "w2 = log env ''\<newline>Creating knowledge index...'' ''INFO'' w1"
  define index_data where "index_data = fst (create_knowledge_index env frame_dirs w2)"
  define index_path where "index_path = path_div (KNOWLEDGE_BASE_DIR env) ''frame_index.json''"
  define w3 where "w3 = emit (Write index_path (Json (json_of_knowledge_index index_data)))
      (emit (Mkdir (parent index_path) True) (snd (create_knowledge_index env frame_dirs w2)))"
  define w4 where "w4 = log env ''\<newline>Generating learning guide...'' ''INFO''
      (log env (''Index saved to: '' @ str_path index_path) ''SUCCESS'' w3)"
  define doc_path where
    "doc_path = path_div (KNOWLEDGE_BASE_DIR env) ''NoCodeBackend_Learning_Guide.md''"
  define w5 where "w5 = snd (create_markdown_documentation env frame_dirs index_data w4)"
  define w6 where "w6 = log env ''\<newline>Attempting to build memvid knowledge base...'' ''INFO''
      (log env (''Learning guide created: '' @ str_path doc_path) ''SUCCESS'' w5)"
  define w7 where "w7 = snd (build_memvid_knowledge_base env index_data w6)"
  define w8 where "w8 = seq
      [log env (''\<newline>'' @ replicate 50 (CHR ''='')) ''INFO'',
       log env ''KNOWLEDGE BASE BUILD COMPLETE'' ''SUCCESS'',
       log env (replicate 50 (CHR ''='')) ''INFO'',
       log env (''Total Videos: '' @ str_int (total_videos index_data)) ''INFO'',
       log env (''Total Frames: '' @ str_int (total_frames index_data)) ''INFO'',
       log env (''Index File: '' @ str_path index_path) ''INFO'',
       log env (''Learning Guide: '' @ str_path doc_path) ''INFO''] w7"
  define w9 where "w9 = log env ''Memvid KB: Not Created'' ''INFO'' w8"
  define w10 where "w10 = seq
      [log env (''\<newline>'' @ [CHR 0xF0, CHR 0x9F, CHR 0x93, CHR 0x96] @ '' Next Steps:'') ''INFO'',
       log env ''1. Open the learning guide to start exploring'' ''INFO'',
       log env ''2. Use Claude Code to analyze specific frames'' ''INFO'',
       log env ''3. Document your learnings as you progress'' ''INFO''] w9"
  have doc: "fst (create_markdown_documentation env frame_dirs index_data w4) = doc_path"
    by (simp add: create_markdown_documentation_def Let_def doc_path_def)
  have run: "main_nocodebackend env w = (Inr (), w10)"
    unfolding main_nocodebackend_def
    by (simp add: sc nonempty Let_def split_beta no
        create_markdown_documentation_def w1_def w2_def index_data_def index_path_def w3_def
        w4_def w5_def doc_path_def w6_def w7_def w8_def w9_def w10_def)
  have t3: "Write index_path (Json (json_of_knowledge_index index_data)) \<in> set (trace w3)"
    by (simp add: w3_def)
  then have t4: "Write index_path (Json (json_of_knowledge_index index_data)) \<in> set (trace w4)"
    by (simp add: w4_def)
  have t5: "set (trace w4) \<subseteq> set (trace w5)"
    and g5: "Write doc_path (Text (guide_content (strftime_now env (tick w4)) index_data))
               \<in> set (trace w5)"
    by (auto simp: w5_def create_markdown_documentation_def Let_def doc_path_def)
  have t6: "set (trace w5) \<subseteq> set (trace w6)"
    by (auto simp: w6_def)
  have t7: "set (trace w6) \<subseteq> set (trace w7)"
    using memvid_trace_mono by (auto simp: w7_def)
  have t9: "set (trace w7) \<subseteq> set (trace w9)"
    and p9: "Print (log_line (strftime_now env (tick w8)) ''INFO'' ''Memvid KB: Not Created'')
               \<in> set (trace w9)"
    by (auto simp: w9_def w8_def)
  have t10: "set (trace w9) \<subseteq> set (trace w10)"
    by (auto simp: w10_def)
  have "videos index_data = videos (fst (create_knowledge_index env frame_dirs world0))"
    by (simp add: index_data_def create_knowledge_index_def)
  moreover have "Write index_path (Json (json_of_knowledge_index index_data)) \<in> set (trace w10)"
    using t4 t5 t6 t7 t9 t10 by blast
  moreover have "Write doc_path (Text (guide_content (strftime_now env (tick w4)) index_data))
      \<in> set (trace w10)"
    using g5 t6 t7 t9 t10 by blast
  moreover have "Print (log_line (strftime_now env (tick w8)) ''INFO'' ''Memvid KB: Not Created'')
      \<in> set (trace w10)"
    using p9 t10 by blast
  ultimately show ?thesis
    unfolding run index_path_def doc_path_def by (simp del: set_append) blast
qed


lemma demo_failing_NOCODEBACKEND_DIR: "NOCODEBACKEND_DIR demo_env_failing = demo_root"
  by (simp add: NOCODEBACKEND_DIR_def demo_env_failing_def demo_env_def demo_root_def
      path_div_def Path_def splitroot_def is_absolute_def is_root_def)

lemma demo_scan_failing:
  "find_all_frame_directories demo_env_failing world0 = (Inr demo_frame_dirs, world0)"
  unfolding demo_frame_dirs_def
  by (simp add: find_all_frame_directories_def demo_failing_NOCODEBACKEND_DIR exists_def
        iterdir_def)
     (simp add: demo_env_failing_def demo_env_def demo_listdir_def demo_root_def glob_png_def
        endswith_def is_dir_def name_of_def is_root_def Let_def)

lemma memvid_absent_warning:
  assumes "(\<exists>e. which_memvid env = ProcRaises e) \<or>
           (\<exists>rc err. which_memvid env = ProcExit rc err \<and> rc \<noteq> 0)"
  shows "\<exists>t msg. Print (log_line (strftime_now env t) ''WARNING'' msg)
           \<in> set (trace (snd (build_memvid_knowledge_base env index_data w)))"
  using assms
  by (auto simp: build_memvid_knowledge_base_def Let_def split: proc.splits)

lemma memvid_create_error:
  assumes "which_memvid env = ProcExit 0 err"
    and "(\<exists>e. memvid_create env = ProcRaises e) \<or>
         (\<exists>rc err'. memvid_create env = ProcExit rc err' \<and> rc \<noteq> 0)"
  shows "\<exists>t msg. Print (log_line (strftime_now env t) ''ERROR'' msg)
           \<in> set (trace (snd (build_memvid_knowledge_base env index_data w)))"
  using assms
  by (auto simp: build_memvid_knowledge_base_def Let_def split: proc.splits)

text \<open>
  C4. When the presence probe for the external tool returns a non-zero status or raises,
  \<^verbatim>\<open>build_memvid_knowledge_base\<close> returns \<^verbatim>\<open>False\<close> and logs a warning; when the tool is
  present and its run returns a non-zero status or raises, it returns \<^verbatim>\<open>False\<close> and logs
  an error. In either case a run that found frame directories returns normally (exit
  status 0), has written the index and the learning guide, and reports
  \<^verbatim>\<open>Memvid KB: Not Created\<close>.
\<close>

theorem memvid_failure_not_fatal:
  "((\<exists>e. which_memvid env = ProcRaises e) \<or>
    (\<exists>rc err. which_memvid env = ProcExit rc err \<and> rc \<noteq> 0) \<longrightarrow>
      \<not> fst (build_memvid_knowledge_base env index_data w) \<and>
      (\<exists>t msg. Print (log_line (strftime_now env t) ''WARNING'' msg)
         \<in> set (trace (snd (build_memvid_knowledge_base env index_data w))))) \<and>
   ((\<exists>err. which_memvid env = ProcExit 0 err) \<and>
    ((\<exists>e. memvid_create env = ProcRaises e) \<or>
     (\<exists>rc err. memvid_create env = ProcExit rc err \<and> rc \<noteq> 0)) \<longrightarrow>
      \<not> fst (build_memvid_knowledge_base env index_data w) \<and>
      (\<exists>t msg. Print (log_line (strftime_now env t) ''ERROR'' msg)
         \<in> set (trace (snd (build_memvid_knowledge_base env index_data w))))) \<and>
   (((\<exists>e. which_memvid env = ProcRaises e) \<or>
     (\<exists>rc err. which_memvid env = ProcExit rc err \<and> rc \<noteq> 0) \<or>
     (\<exists>e. memvid_create env = ProcRaises e) \<or>
     (\<exists>rc err. memvid_create env = ProcExit rc err \<and> rc \<noteq> 0)) \<and>
    fst (find_all_frame_directories env world0) = Inr frame_dirs \<and> frame_dirs \<noteq> [] \<longrightarrow>
      fst (main_nocodebackend env w) = Inr () \<and>
      exit_status (fst (main_nocodebackend env w)) = 0 \<and>
      (\<exists>index_data generated t.
         videos index_data = videos (fst (create_knowledge_index env frame_dirs world0)) \<and>
         Write (path_div (KNOWLEDGE_BASE_DIR env) ''frame_index.json'')
            (Json (json_of_knowledge_index index_data))
           \<in> set (trace (snd (main_nocodebackend env w))) \<and>
         Write (path_div (KNOWLEDGE_BASE_DIR env) ''NoCodeBackend_Learning_Guide.md'')
            (Text (guide_content generated index_data))
           \<in> set (trace (snd (main_nocodebackend env w))) \<and>
         Print (log_line (strftime_now env t) ''INFO'' ''Memvid KB: Not Created'')
           \<in> set (trace (snd (main_nocodebackend env w)))))"
proof (intro conjI impI)
  assume a: "(\<exists>e. which_memvid env = ProcRaises e) \<or>
    (\<exists>rc err. which_memvid env = ProcExit rc err \<and> rc \<noteq> 0)"
  then show "\<not> fst (build_memvid_knowledge_base env index_data w)"
    by (auto simp: memvid_success_iff)
  from a show "\<exists>t msg. Print (log_line (strftime_now env t) ''WARNING'' msg)
      \<in> set (trace (snd (build_memvid_knowledge_base env index_data w)))"
    by (rule memvid_absent_warning)
next
  assume b: "(\<exists>err. which_memvid env = ProcExit 0 err) \<and>
    ((\<exists>e. memvid_create env = ProcRaises e) \<or>
     (\<exists>rc err. memvid_create env = ProcExit rc err \<and> rc \<noteq> 0))"
  then show "\<not> fst (build_memvid_knowledge_base env index_data w)"
    by (auto simp: memvid_success_iff)
  from b show "\<exists>t msg. Print (log_line (strftime_now env t) ''ERROR'' msg)
      \<in> set (trace (snd (build_memvid_knowledge_base env index_data w)))"
    using memvid_create_error by blast
next
  assume c: "((\<exists>e. which_memvid env = ProcRaises e) \<or>
     (\<exists>rc err. which_memvid env = ProcExit rc err \<and> rc \<noteq> 0) \<or>
     (\<exists>e. memvid_create env = ProcRaises e) \<or>
     (\<exists>rc err. memvid_create env = ProcExit rc err \<and> rc \<noteq> 0)) \<and>
    fst (find_all_frame_directories env world0) = Inr frame_dirs \<and> frame_dirs \<noteq> []"
  then have "\<forall>i v. \<not> fst (build_memvid_knowledge_base env i v)"
    by (auto simp: memvid_success_iff)
  with c have run: "fst (main_nocodebackend env w) = Inr () \<and>
     (\<exists>index_data generated t.
        videos index_data = videos (fst (create_knowledge_index env frame_dirs world0)) \<and>
        Write (path_div (KNOWLEDGE_BASE_DIR env) ''frame_index.json'')
           (Json (json_of_knowledge_index index_data))
          \<in> set (trace (snd (main_nocodebackend env w))) \<and>
        Write (path_div (KNOWLEDGE_BASE_DIR env) ''NoCodeBackend_Learning_Guide.md'')
           (Text (guide_content generated index_data))
          \<in> set (trace (snd (main_nocodebackend env w))) \<and>
        Print (log_line (strftime_now env t) ''INFO'' ''Memvid KB: Not Created'')
          \<in> set (trace (snd (main_nocodebackend env w))))"
    using main_run by blast
  then show "fst (main_nocodebackend env w) = Inr ()" by blast
  then show "exit_status (fst (main_nocodebackend env w)) = 0" by simp
  from run show "\<exists>index_data generated t.
         videos index_data = videos (fst (create_knowledge_index env frame_dirs world0)) \<and>
         Write (path_div (KNOWLEDGE_BASE_DIR env) ''frame_index.json'')
            (Json (json_of_knowledge_index index_data))
           \<in> set (trace (snd (main_nocodebackend env w))) \<and>
         Write (path_div (KNOWLEDGE_BASE_DIR env) ''NoCodeBackend_Learning_Guide.md'')
            (Text (guide_content generated index_data))
           \<in> set (trace (snd (main_nocodebackend env w))) \<and>
         Print (log_line (strftime_now env t) ''INFO'' ''Memvid KB: Not Created'')
           \<in> set (trace (snd (main_nocodebackend env w)))"
    by blast
qed

theorem memvid_failure_not_fatal_witness:
  "which_memvid demo_env = ProcExit 1 [] \<and>
   which_memvid demo_env_failing = ProcExit 0 [] \<and>
   memvid_create demo_env_failing = ProcExit 2 ''no such command'' \<and>
   fst (find_all_frame_directories demo_env world0) = Inr demo_frame_dirs \<and>
   fst (find_all_frame_directories demo_env_failing world0) = Inr demo_frame_dirs \<and>
   demo_frame_dirs \<noteq> [] \<and>
   \<not> fst (build_memvid_knowledge_base demo_env
           (fst (create_knowledge_index demo_env demo_frame_dirs world0)) world0) \<and>
   \<not> fst (build_memvid_knowledge_base demo_env_failing
           (fst (create_knowledge_index demo_env demo_frame_dirs world0)) world0) \<and>
   exit_status (fst (main_nocodebackend demo_env world0)) = 0 \<and>
   exit_status (fst (main_nocodebackend demo_env_failing world0)) = 0 \<and>
   (\<exists>t. Print (log_line (strftime_now demo_env t) ''INFO'' ''Memvid KB: Not Created'')
          \<in> set (trace (snd (main_nocodebackend demo_env world0)))) \<and>
   (\<exists>t. Print (log_line (strftime_now demo_env_failing t) ''INFO'' ''Memvid KB: Not Created'')
          \<in> set (trace (snd (main_nocodebackend demo_env_failing world0))))"
proof -
  have h1: "which_memvid demo_env = ProcExit 1 []"
    by (simp add: demo_env_def)
  have h2: "which_memvid demo_env_failing = ProcExit 0 []"
    and h3: "memvid_create demo_env_failing = ProcExit 2 ''no such command''"
    by (simp_all add: demo_env_failing_def)
  have h4: "demo_frame_dirs \<noteq> []"
    by (simp add: demo_frame_dirs_def)
  note a = memvid_failure_not_fatal [of demo_env
      "fst (create_knowledge_index demo_env demo_frame_dirs world0)" world0 demo_frame_dirs]
  note b = memvid_failure_not_fatal [of demo_env_failing
      "fst (create_knowledge_index demo_env demo_frame_dirs world0)" world0 demo_frame_dirs]
  show ?thesis
    using a b h1 h2 h3 h4 demo_scan demo_scan_failing by simp blast
qed


subsection \<open>Topics\<close>

lemma analyse_sampled_id: "analyse_sampled fs topics = topics"
  by (induction fs) simp_all

lemma analyse_dirs_topics: "fst (analyse_dirs env dirs (topics, w)) = topics"
  by (induction dirs arbitrary: w) (simp_all add: Let_def analyse_sampled_id)

lemma extract_topics_eq:
  "fst (extract_topics_from_frames env self frame_directories w) =
     [(''authentication'', []), (''database'', []), (''api-design'', []), (''frontend'', []),
      (''deployment'', []), (''testing'', []), (''configuration'', [])]"
  by (simp add: extract_topics_from_frames_def Let_def analyse_dirs_topics)

lemma build_topic_structure_mono:
  "e \<in> set (trace w) \<Longrightarrow> e \<in> set (trace (build_topic_structure env self topics w))"
  by (induction topics arbitrary: w) (auto simp: Let_def)

lemma build_topic_structure_events:
  assumes "(topic_name, frame_paths) \<in> set topics"
  shows "\<exists>t. set [Mkdir (path_div (topics_dir self) topic_name) False,
           Mkdir (path_div (path_div (topics_dir self) topic_name) ''concepts'') False,
           Mkdir (path_div (path_div (topics_dir self) topic_name) ''code-examples'') False,
           Mkdir (path_div (path_div (topics_dir self) topic_name) ''frames'') False,
           Write (path_div (path_div (topics_dir self) topic_name) ''metadata.json'')
             (Json (topic_metadata topic_name frame_paths (isoformat_now env t))),
           Write (path_div (path_div (path_div (topics_dir self) topic_name) ''concepts'')
                    ''overview.md'')
             (Text (overview_text self topic_name frame_paths))]
         \<subseteq> set (trace (build_topic_structure env self topics w))"
  using assms
proof (induction topics arbitrary: w)
  case Nil
  then show ?case by simp
next
  case (Cons entry topics)
  show ?case
  proof (cases "entry = (topic_name, frame_paths)")
    case True
    show ?thesis
      unfolding True
      apply (rule exI [of _ "tick w"])
      apply (simp add: Let_def)
      apply (intro conjI build_topic_structure_mono)
           apply simp_all
      done
  next
    case False
    with Cons.prems have "(topic_name, frame_paths) \<in> set topics" by auto
    from Cons.IH [OF this] show ?thesis
      by (cases entry) (simp add: Let_def)
  qed
qed

lemma build_topic_structure_trace:
  "\<exists>es. trace (build_topic_structure env self topics w) = trace w @ es \<and>
     (\<forall>e \<in> set es. \<forall>p j. e = Write p (Json j) \<longrightarrow>
        (\<exists>topic_name frame_paths t. (topic_name, frame_paths) \<in> set topics \<and>
           j = topic_metadata topic_name frame_paths t))"
proof (induction topics arbitrary: w)
  case Nil
  then show ?case by simp
next
  case (Cons entry topics)
  obtain topic_name frame_paths where entry: "entry = (topic_name, frame_paths)"
    by (cases entry)
  define w' where "w' = emit (Write (path_div (path_div (path_div (topics_dir self) topic_name) ''concepts'') ''overview.md'')
             (Text (overview_text self topic_name frame_paths)))
          (emit (Write (path_div (path_div (topics_dir self) topic_name) ''metadata.json'')
             (Json (topic_metadata topic_name frame_paths (isoformat_now env (tick w)))))
          ((emit (Mkdir (path_div (path_div (topics_dir self) topic_name) ''frames'') False)
          (emit (Mkdir (path_div (path_div (topics_dir self) topic_name) ''code-examples'') False)
          (emit (Mkdir (path_div (path_div (topics_dir self) topic_name) ''concepts'') False)
          (emit (Mkdir (path_div (topics_dir self) topic_name) False) w))))
            \<lparr>tick := Suc (tick w)\<rparr>))"
  have step: "build_topic_structure env self (entry # topics) w =
      build_topic_structure env self topics w'"
    by (simp add: entry Let_def w'_def)
  from Cons.IH [of w'] obtain es where es: "trace (build_topic_structure env self topics w') = trace w' @ es"
    and wr: "\<forall>e \<in> set es. \<forall>p j. e = Write p (Json j) \<longrightarrow>
        (\<exists>topic_name frame_paths t. (topic_name, frame_paths) \<in> set topics \<and>
           j = topic_metadata topic_name frame_paths t)"
    by blast
  obtain fs where fs: "trace w' = trace w @ fs"
    and fw: "\<forall>e \<in> set fs. \<forall>p j. e = Write p (Json j) \<longrightarrow>
         j = topic_metadata topic_name frame_paths (isoformat_now env (tick w))"
    by (simp add: w'_def)
  have "\<exists>topic_name frame_paths t. (topic_name, frame_paths) \<in> set (entry # topics) \<and>
           j = topic_metadata topic_name frame_paths t"
    if "e \<in> set (fs @ es)" and "e = Write p (Json j)" for e p j
  proof -
    from that consider "e \<in> set fs" | "e \<in> set es" by auto
    then show ?thesis
    proof cases
      case 1
      with fw that(2) have "j = topic_metadata topic_name frame_paths (isoformat_now env (tick w))"
        by blast
      then show ?thesis using entry by auto
    next
      case 2
      with wr that(2) show ?thesis by fastforce
    qed
  qed
  then show ?case
    unfolding step es fs by (intro exI [of _ "fs @ es"]) (simp del: set_append, blast)
qed


lemma build_topic_structure_new_events:
  "\<exists>es. trace (build_topic_structure env self topics w) = trace w @ es"
  using build_topic_structure_trace by blast

text \<open>
  C7. For every topic of the mapping (the fixed seven in a build), \<^verbatim>\<open>build_topic_structure\<close>
  creates the topic directory and its subdirectories \<^verbatim>\<open>concepts\<close>, \<^verbatim>\<open>code-examples\<close> and
  \<^verbatim>\<open>frames\<close>, writes \<^verbatim>\<open>metadata.json\<close> with exactly the fields \<^verbatim>\<open>topic\<close>,
  \<^verbatim>\<open>frame_count\<close>, \<^verbatim>\<open>last_updated\<close>, \<^verbatim>\<open>frames\<close>, where \<^verbatim>\<open>frame_count\<close> is the length of
  the topic's frame-path list, and writes the overview with the topic name and that count.
\<close>

theorem topic_structure_created:
  assumes "(topic_name, frame_paths) \<in> set topics"
  shows "\<exists>t rest.
     Mkdir (path_div (topics_dir self) topic_name) False
       \<in> set (trace (build_topic_structure env self topics w)) \<and>
     Mkdir (path_div (path_div (topics_dir self) topic_name) ''concepts'') False
       \<in> set (trace (build_topic_structure env self topics w)) \<and>
     Mkdir (path_div (path_div (topics_dir self) topic_name) ''code-examples'') False
       \<in> set (trace (build_topic_structure env self topics w)) \<and>
     Mkdir (path_div (path_div (topics_dir self) topic_name) ''frames'') False
       \<in> set (trace (build_topic_structure env self topics w)) \<and>
     Write (path_div (path_div (topics_dir self) topic_name) ''metadata.json'')
       (Json (topic_metadata topic_name frame_paths (isoformat_now env t)))
       \<in> set (trace (build_topic_structure env self topics w)) \<and>
     keys (topic_metadata topic_name frame_paths (isoformat_now env t)) =
       [''topic'', ''frame_count'', ''last_updated'', ''frames''] \<and>
     field (topic_metadata topic_name frame_paths (isoformat_now env t)) ''topic'' =
       Some (JString topic_name) \<and>
     field (topic_metadata topic_name frame_paths (isoformat_now env t)) ''frame_count'' =
       Some (JInt (int (length frame_paths))) \<and>
     field (topic_metadata topic_name frame_paths (isoformat_now env t)) ''frames'' =
       Some (JArray (map JString frame_paths)) \<and>
     Write (path_div (path_div (path_div (topics_dir self) topic_name) ''concepts'')
              ''overview.md'')
       (Text (overview_text self topic_name frame_paths))
       \<in> set (trace (build_topic_structure env self topics w)) \<and>
     overview_text self topic_name frame_paths =
       ''# '' @ title topic_name @ '' Concepts\<newline>\<newline>## Overview\<newline>\<newline>This topic covers '' @
       topic_name @ '' concepts from the '' @ topic self @ '' tutorial series.\<newline>'' @ rest @
       str_int (int (length frame_paths)) @ '' frames reference this topic.\<newline>''"
proof -
  from build_topic_structure_events [OF assms, of self env w] obtain t where
    ev: "set [Mkdir (path_div (topics_dir self) topic_name) False,
           Mkdir (path_div (path_div (topics_dir self) topic_name) ''concepts'') False,
           Mkdir (path_div (path_div (topics_dir self) topic_name) ''code-examples'') False,
           Mkdir (path_div (path_div (topics_dir self) topic_name) ''frames'') False,
           Write (path_div (path_div (topics_dir self) topic_name) ''metadata.json'')
             (Json (topic_metadata topic_name frame_paths (isoformat_now env t))),
           Write (path_div (path_div (path_div (topics_dir self) topic_name) ''concepts'')
                    ''overview.md'')
             (Text (overview_text self topic_name frame_paths))]
         \<subseteq> set (trace (build_topic_structure env self topics w))"
    by blast
  have meta: "keys (topic_metadata topic_name frame_paths ts) =
       [''topic'', ''frame_count'', ''last_updated'', ''frames'']"
    "field (topic_metadata topic_name frame_paths ts) ''topic'' = Some (JString topic_name)"
    "field (topic_metadata topic_name frame_paths ts) ''frame_count'' =
       Some (JInt (int (length frame_paths)))"
    "field (topic_metadata topic_name frame_paths ts) ''frames'' =
       Some (JArray (map JString frame_paths))" for ts
    by (simp_all add: topic_metadata_def)
  have ov: "\<exists>rest. overview_text self topic_name frame_paths =
       ''# '' @ title topic_name @ '' Concepts\<newline>\<newline>## Overview\<newline>\<newline>This topic covers '' @
       topic_name @ '' concepts from the '' @ topic self @ '' tutorial series.\<newline>'' @ rest @
       str_int (int (length frame_paths)) @ '' frames reference this topic.\<newline>''"
    by (simp add: overview_text_def)
  then obtain rest where "overview_text self topic_name frame_paths =
       ''# '' @ title topic_name @ '' Concepts\<newline>\<newline>## Overview\<newline>\<newline>This topic covers '' @
       topic_name @ '' concepts from the '' @ topic self @ '' tutorial series.\<newline>'' @ rest @
       str_int (int (length frame_paths)) @ '' frames reference this topic.\<newline>''"
    by blast
  with ev meta show ?thesis
    by (intro exI [of _ t] exI [of _ rest]) simp
qed

lemma demo_topic_dir:
  "path_div (topics_dir demo_builder) ''api-design'' = demo_topics_dir @ [''api-design'']"
  "path_div (topics_dir demo_builder) ''authentication'' = demo_topics_dir @ [''authentication'']"
  "path_div (demo_topics_dir @ [n]) ''metadata.json'' = demo_topics_dir @ [n, ''metadata.json'']"
  "path_div (demo_topics_dir @ [n]) ''concepts'' = demo_topics_dir @ [n, ''concepts'']"
  "path_div (demo_topics_dir @ [n]) ''code-examples'' = demo_topics_dir @ [n, ''code-examples'']"
  "path_div (demo_topics_dir @ [n]) ''frames'' = demo_topics_dir @ [n, ''frames'']"
  "path_div (demo_topics_dir @ [n, ''concepts'']) ''overview.md'' =
     demo_topics_dir @ [n, ''concepts'', ''overview.md'']"
  by (simp_all add: demo_builder_eq demo_topics_dir_def path_div_def Path_def splitroot_def
      is_absolute_def is_root_def)

theorem topic_structure_created_witness:
  "(''api-design'', []) \<in> set demo_topics \<and>
   (\<exists>t. Mkdir (demo_topics_dir @ [''api-design'']) False
          \<in> set (trace (build_topic_structure demo_env demo_builder demo_topics world0)) \<and>
        Mkdir (demo_topics_dir @ [''api-design'', ''concepts'']) False
          \<in> set (trace (build_topic_structure demo_env demo_builder demo_topics world0)) \<and>
        Mkdir (demo_topics_dir @ [''api-design'', ''code-examples'']) False
          \<in> set (trace (build_topic_structure demo_env demo_builder demo_topics world0)) \<and>
        Mkdir (demo_topics_dir @ [''api-design'', ''frames'']) False
          \<in> set (trace (build_topic_structure demo_env demo_builder demo_topics world0)) \<and>
        Write (demo_topics_dir @ [''api-design'', ''metadata.json''])
          (Json (JObject [(''topic'', JString ''api-design''), (''frame_count'', JInt 0),
                          (''last_updated'', JString (isoformat_now demo_env t)),
                          (''frames'', JArray [])]))
          \<in> set (trace (build_topic_structure demo_env demo_builder demo_topics world0)) \<and>
        Write (demo_topics_dir @ [''api-design'', ''concepts'', ''overview.md''])
          (Text (overview_text demo_builder ''api-design'' []))
          \<in> set (trace (build_topic_structure demo_env demo_builder demo_topics world0)))"
proof -
  have mem: "(''api-design'', []) \<in> set demo_topics"
    by (simp add: demo_topics_def extract_topics_eq)
  from topic_structure_created [OF mem, of demo_builder demo_env world0] mem
  show ?thesis
    by (simp add: demo_topic_dir topic_metadata_def)
qed





subsection \<open>The command line of the intelligent builder\<close>


















end
